theory Spec2Isabelle
  imports Complex_Main "HOL-Library.Log_Nat"
begin

section \<open>Python values, exceptions and logging\<close>

text \<open>
  The two nodes are Python callbacks on top of rospy, numpy, OpenCV, cv\_bridge and
  dt\_computer\_vision. Every raise of the source is a branch of the model: a call
  that can raise returns \<open>pyexn + 'a\<close>, with \<open>Inl\<close> for the exception.
\<close>

datatype pyexn =
    ValueError | TypeError | IndexError | KeyError | AttributeError
  | FileNotFoundError | UnboundLocalError | OverflowError | YAMLError
  | LibraryError string

text \<open>
  A Python float is an IEEE 754 double. A finite float is given by the rational it
  stands for (the sign of zero is not kept); the two infinities and NaN are kept,
  because comparisons and \<open>int()\<close> treat them differently.
\<close>

datatype pyfloat = Fin rat | PosInf | NegInf | NaN

text \<open>
  An arithmetic operation returns its exact result rounded to the nearest double, ties
  to even: 53 significant bits, the last place never below \<open>2^-1074\<close>, and an
  infinity once the rounded magnitude reaches \<open>2^1024\<close>. \<open>ilog2 q\<close> is the exponent
  of the leading bit of a positive \<open>q\<close>.
\<close>

definition pow2 :: "int \<Rightarrow> rat" where
  "pow2 e = (if 0 \<le> e then 2 ^ nat e else 1 / 2 ^ nat (- e))"

definition ilog2 :: "rat \<Rightarrow> int" where
  "ilog2 q = (if 1 \<le> q then bitlen \<lfloor>q\<rfloor> - 1 else - bitlen (\<lceil>1 / q\<rceil> - 1))"

definition round_half_even :: "rat \<Rightarrow> int" where
  "round_half_even q =
     (let f = \<lfloor>q\<rfloor>; d = q - of_int f
      in if d < 1 / 2 then f else if 1 / 2 < d then f + 1 else if even f then f else f + 1)"

definition round_double :: "rat \<Rightarrow> pyfloat" where
  "round_double r =
     (if r = 0 then Fin 0
      else
        let e = max (ilog2 \<bar>r\<bar> - 52) (- 1074);
            w = of_int (round_half_even (r / pow2 e)) * pow2 e
        in if 2 ^ 1024 \<le> \<bar>w\<bar> then (if 0 < r then PosInf else NegInf) else Fin w)"

text \<open>A rational is a double when rounding leaves it as it is.\<close>

definition is_double :: "rat \<Rightarrow> bool" where
  "is_double r = (round_double r = Fin r)"

fun float_abs :: "pyfloat \<Rightarrow> pyfloat" where
  "float_abs (Fin r) = Fin \<bar>r\<bar>"
| "float_abs PosInf = PosInf"
| "float_abs NegInf = PosInf"
| "float_abs NaN = NaN"

text \<open>\<open>a > b\<close> for a float and a finite constant: every comparison with NaN is false.\<close>

fun float_gt :: "pyfloat \<Rightarrow> rat \<Rightarrow> bool" where
  "float_gt (Fin r) c = (c < r)"
| "float_gt PosInf c = True"
| "float_gt NegInf c = False"
| "float_gt NaN c = False"

text \<open>
  \<open>a * k\<close> for a float and an integer constant that is a double itself: the exact
  product is rounded once.
\<close>

fun float_mul_int :: "pyfloat \<Rightarrow> int \<Rightarrow> pyfloat" where
  "float_mul_int (Fin r) k = round_double (r * of_int k)"
| "float_mul_int PosInf k = (if 0 < k then PosInf else if k < 0 then NegInf else NaN)"
| "float_mul_int NegInf k = (if 0 < k then NegInf else if k < 0 then PosInf else NaN)"
| "float_mul_int NaN k = NaN"

text \<open>Truncation toward zero, as \<open>int()\<close> does on a finite float.\<close>

definition trunc_rat :: "rat \<Rightarrow> int" where
  "trunc_rat r = (if r < 0 then - \<lfloor>- r\<rfloor> else \<lfloor>r\<rfloor>)"

fun py_int :: "pyfloat \<Rightarrow> pyexn + int" where
  "py_int (Fin r) = Inr (trunc_rat r)"
| "py_int PosInf = Inl OverflowError"
| "py_int NegInf = Inl OverflowError"
| "py_int NaN = Inl ValueError"

text \<open>
  A value as it arrives in a message field whose layout the node does not check:
  a float or a sequence of values.
\<close>

datatype pyval = PFloat pyfloat | PSeq "pyval list"

text \<open>\<open>a, b = v\<close>: unpacking into exactly two names.\<close>

fun unpack2 :: "pyval \<Rightarrow> pyexn + pyval \<times> pyval" where
  "unpack2 (PSeq [a, b]) = Inr (a, b)"
| "unpack2 (PSeq _) = Inl ValueError"
| "unpack2 (PFloat _) = Inl TypeError"

text \<open>\<open>v[i]\<close> with a non-negative literal index.\<close>

fun getitem :: "pyval \<Rightarrow> nat \<Rightarrow> pyexn + pyval" where
  "getitem (PSeq xs) i = (if i < length xs then Inr (xs ! i) else Inl IndexError)"
| "getitem (PFloat _) i = Inl TypeError"

datatype log_level = Info | Warn | Error

type_synonym log_entry = "log_level \<times> string"

section \<open>numpy helpers\<close>

text \<open>\<open>np.reshape(xs, (r, c)).tolist()\<close> on a flat sequence.\<close>

primrec rows :: "nat \<Rightarrow> nat \<Rightarrow> 'a list \<Rightarrow> 'a list list" where
  "rows 0 c xs = []"
| "rows (Suc r) c xs = take c xs # rows r c (drop c xs)"

definition np_reshape :: "'a list \<Rightarrow> nat \<Rightarrow> nat \<Rightarrow> pyexn + 'a list list" where
  "np_reshape xs r c = (if length xs = r * c then Inr (rows r c xs) else Inl ValueError)"

text \<open>\<open>np.arange(start, stop, step)\<close> on integers, for a positive step.\<close>

function np_arange :: "int \<Rightarrow> int \<Rightarrow> int \<Rightarrow> int list" where
  "np_arange start stop step =
     (if 0 < step \<and> start < stop then start # np_arange (start + step) stop step else [])"
  by pat_completeness auto
termination
  by (relation "measure (\<lambda>(start, stop, step). nat (stop - start))") auto

declare np_arange.simps [simp del]

section \<open>Messages and the camera library\<close>

record Pixel =
  px :: pyval
  py :: pyval

record NormalizedImagePoint =
  nx :: pyfloat
  ny :: pyfloat

record GroundPoint =
  gx :: pyfloat
  gy :: pyfloat

record PointMsg =
  pm_x :: pyfloat
  pm_y :: pyfloat
  pm_z :: pyfloat

text \<open>
  Modelled from the spec: the message definitions are not part of the sources. A color
  tag is drawn from the fixed set WHITE, YELLOW, RED, OTHER; a received segment carries
  its endpoint data and a color, a projected segment its two points (\<open>points[0]\<close> and
  \<open>points[1]\<close>, a pair) and a color. The header of a message is copied and never
  read, so it is kept as a plain stamp.
\<close>

datatype segment_color = WHITE | YELLOW | RED | OTHER

record PixelSegment =
  pixels_normalized :: pyval
  color :: segment_color

record GroundSegment =
  points :: "PointMsg \<times> PointMsg"
  gcolor :: segment_color

record 'seg SegmentList =
  header :: nat
  segments :: "'seg list"

record CameraInfo =
  ci_width :: int
  ci_height :: int
  ci_K :: "pyfloat list"
  ci_D :: "pyfloat list"
  ci_P :: "pyfloat list"

record CameraModel =
  cm_width :: int
  cm_height :: int
  cm_K :: "pyfloat list list"
  cm_D :: "pyfloat list"
  cm_P :: "pyfloat list list"
  cm_H :: "pyfloat list list"

record GroundProjector =
  gp_camera :: CameraModel

text \<open>
  The three transforms of dt\_computer\_vision are outside the sources and are taken
  as parameters; each of them may raise.
\<close>

record dt_computer_vision =
  rectify_pixel :: "CameraModel \<Rightarrow> Pixel \<Rightarrow> pyexn + Pixel"
  pixel2vector :: "CameraModel \<Rightarrow> Pixel \<Rightarrow> pyexn + NormalizedImagePoint"
  vector2ground :: "GroundProjector \<Rightarrow> NormalizedImagePoint \<Rightarrow> pyexn + GroundPoint"

section \<open>The debug image as a drawing\<close>

text \<open>
  An image is the uniformly filled array it was created as, together with the OpenCV
  drawing calls applied to it since, in order. Rasterisation is OpenCV's.
\<close>

type_synonym bgr = "nat \<times> nat \<times> nat"

datatype font = FONT_HERSHEY_PLAIN

datatype draw_call =
    Line "int \<times> int" "int \<times> int" bgr int
  | PutText string "int \<times> int" font rat bgr int

record image =
  shape :: "nat \<times> nat \<times> nat"
  fill :: nat
  calls :: "draw_call list"

definition cv2_line :: "image \<Rightarrow> int \<times> int \<Rightarrow> int \<times> int \<Rightarrow> bgr \<Rightarrow> int \<Rightarrow> image" where
  "cv2_line img pt1 pt2 c thickness = img\<lparr>calls := calls img @ [Line pt1 pt2 c thickness]\<rparr>"

definition cv2_putText ::
  "image \<Rightarrow> string \<Rightarrow> int \<times> int \<Rightarrow> font \<Rightarrow> rat \<Rightarrow> bgr \<Rightarrow> int \<Rightarrow> image" where
  "cv2_putText img txt org f scale c thickness =
     img\<lparr>calls := calls img @ [PutText txt org f scale c thickness]\<rparr>"

record CompressedImage =
  img_header :: nat
  img_data :: image

section \<open>GroundProjectionNode\<close>

text \<open>
  Arrays are objects: \<open>store\<close> maps a reference (an index) to the array it names,
  \<open>debug_img_bg\<close> holds a reference, drawing updates the array in place and
  \<open>.copy()\<close> allocates a new one. The publishers are the lists of messages sent so far.
\<close>

record GroundProjectionNode =
  ground_projector :: "GroundProjector option"
  camera :: "CameraModel option"
  homography :: "pyfloat list list"
  first_processing_done :: bool
  camera_info_received :: bool
  debug_img_bg :: "nat option"
  store :: "image list"
  pub_lineseglist :: "GroundSegment SegmentList list"
  pub_debug_img :: "CompressedImage list"
  logged :: "log_entry list"

definition node_log :: "log_level \<Rightarrow> string \<Rightarrow> GroundProjectionNode \<Rightarrow> GroundProjectionNode" where
  "node_log lvl txt self = self\<lparr>logged := logged self @ [(lvl, txt)]\<rparr>"

subsection \<open>cb\_camera\_info\<close>

text \<open>
  A callback returns the exception that escaped it, if any, and the node as it is left.
\<close>

definition cb_camera_info ::
  "GroundProjectionNode \<Rightarrow> CameraInfo \<Rightarrow> pyexn option \<times> GroundProjectionNode" where
  "cb_camera_info self msg =
     (if \<not> camera_info_received self then
        (case np_reshape (ci_K msg) 3 3 of
           Inl e \<Rightarrow> (Some e, self)
         | Inr K \<Rightarrow>
        (case np_reshape (ci_P msg) 3 4 of
           Inl e \<Rightarrow> (Some e, self)
         | Inr P \<Rightarrow>
             let cam = \<lparr>cm_width = ci_width msg, cm_height = ci_height msg, cm_K = K,
                        cm_D = ci_D msg, cm_P = P, cm_H = homography self\<rparr>;
                 self1 = self\<lparr>camera := Some cam\<rparr>;
                 self2 = self1\<lparr>ground_projector := Some \<lparr>gp_camera = cam\<rparr>\<rparr>
             in (None, self2\<lparr>camera_info_received := True\<rparr>)))
      else (None, self\<lparr>camera_info_received := True\<rparr>))"

subsection \<open>lineseglist\_cb\<close>

definition fill_point_msg :: "GroundPoint \<Rightarrow> PointMsg" where
  "fill_point_msg pt = \<lparr>pm_x = gx pt, pm_y = gy pt, pm_z = Fin 0\<rparr>"

text \<open>Lines 141 to 143: the two distorted pixels of a received segment.\<close>

definition segment_pixels :: "PixelSegment \<Rightarrow> pyexn + Pixel \<times> Pixel" where
  "segment_pixels received_segment =
     (case unpack2 (pixels_normalized received_segment) of
        Inl e \<Rightarrow> Inl e
      | Inr (l0, l1) \<Rightarrow>
     (case getitem l0 0 of Inl e \<Rightarrow> Inl e | Inr a \<Rightarrow>
     (case getitem l0 1 of Inl e \<Rightarrow> Inl e | Inr b \<Rightarrow>
     (case getitem l1 2 of Inl e \<Rightarrow> Inl e | Inr c \<Rightarrow>
     (case getitem l1 3 of Inl e \<Rightarrow> Inl e | Inr d \<Rightarrow>
        Inr (\<lparr>px = a, py = b\<rparr>, \<lparr>px = c, py = d\<rparr>))))))"

text \<open>The body of the loop over the received segments, lines 139 to 159.\<close>

definition project_segment ::
  "dt_computer_vision \<Rightarrow> GroundProjectionNode \<Rightarrow> PixelSegment \<Rightarrow> pyexn + GroundSegment" where
  "project_segment lib self received_segment =
     (case segment_pixels received_segment of
        Inl e \<Rightarrow> Inl e
      | Inr (p0, p1) \<Rightarrow>
     (case camera self of None \<Rightarrow> Inl AttributeError | Some cam \<Rightarrow>
     (case rectify_pixel lib cam p0 of Inl e \<Rightarrow> Inl e | Inr p0_rect \<Rightarrow>
     (case rectify_pixel lib cam p1 of Inl e \<Rightarrow> Inl e | Inr p1_rect \<Rightarrow>
     (case pixel2vector lib cam p0_rect of Inl e \<Rightarrow> Inl e | Inr p0_norm \<Rightarrow>
     (case pixel2vector lib cam p1_rect of Inl e \<Rightarrow> Inl e | Inr p1_norm \<Rightarrow>
     (case ground_projector self of None \<Rightarrow> Inl AttributeError | Some gp \<Rightarrow>
     (case vector2ground lib gp p0_norm of Inl e \<Rightarrow> Inl e | Inr grounded_p0 \<Rightarrow>
     (case vector2ground lib gp p1_norm of Inl e \<Rightarrow> Inl e | Inr grounded_p1 \<Rightarrow>
        Inr \<lparr>points = (fill_point_msg grounded_p0, fill_point_msg grounded_p1),
             gcolor = color received_segment\<rparr>)))))))))"

text \<open>
  The loop: each new segment is appended to the output; an exception leaves the loop
  and the callback.
\<close>

fun project_segments ::
  "dt_computer_vision \<Rightarrow> GroundProjectionNode \<Rightarrow> PixelSegment list \<Rightarrow>
   GroundSegment list \<Rightarrow> pyexn + GroundSegment list" where
  "project_segments lib self [] out = Inr out"
| "project_segments lib self (received_segment # rest) out =
     (case project_segment lib self received_segment of
        Inl e \<Rightarrow> Inl e
      | Inr new_segment \<Rightarrow> project_segments lib self rest (out @ [new_segment]))"


subsection \<open>debug\_image\<close>

definition new_array :: "image \<Rightarrow> image list \<Rightarrow> nat \<times> image list" where
  "new_array img st = (length st, st @ [img])"

text \<open>
  Lines 226 to 301: the gray image with the grid, the labels and the robot marker. The
  calls draw on the new array before anything else refers to it, so its value is
  computed first and stored afterwards.
\<close>

definition debug_background :: image where
  "debug_background =
     (let img = \<lparr>shape = (400, 400, 3), fill = 1 * 128, calls = []\<rparr>;
          img = foldl (\<lambda>im vline. cv2_line im (vline, 20) (vline, 300) (255, 255, 0) 1)
                  img (np_arange 40 361 40);
          img = cv2_putText img ''-20cm'' (120 - 25, 300 + 15) FONT_HERSHEY_PLAIN (8 / 10)
                  (255, 255, 0) 1;
          img = cv2_putText img ''  0cm'' (200 - 25, 300 + 15) FONT_HERSHEY_PLAIN (8 / 10)
                  (255, 255, 0) 1;
          img = cv2_putText img ''+20cm'' (280 - 25, 300 + 15) FONT_HERSHEY_PLAIN (8 / 10)
                  (255, 255, 0) 1;
          img = foldl (\<lambda>im hline. cv2_line im (40, hline) (360, hline) (255, 255, 0) 1)
                  img (np_arange 20 301 40);
          img = cv2_putText img ''20cm'' (2, 220 + 3) FONT_HERSHEY_PLAIN (8 / 10)
                  (255, 255, 0) 1;
          img = cv2_putText img '' 0cm'' (2, 300 + 3) FONT_HERSHEY_PLAIN (8 / 10)
                  (255, 255, 0) 1;
          img = cv2_line img (200 + 0, 300 - 20) (200 + 0, 300 + 0) (255, 0, 0) 1;
          img = cv2_line img (200 + 20, 300 - 20) (200 + 0, 300 + 0) (255, 0, 0) 1;
          img = cv2_line img (200 - 20, 300 - 20) (200 + 0, 300 + 0) (255, 0, 0) 1
      in img)"

text \<open>Line 304 and the \<open>.get\<close> of line 318.\<close>

definition color_map :: "segment_color \<rightharpoonup> bgr" where
  "color_map = [WHITE \<mapsto> (255, 255, 255), RED \<mapsto> (0, 0, 255), YELLOW \<mapsto> (0, 255, 255)]"

definition dict_get :: "('k \<rightharpoonup> 'v) \<Rightarrow> 'k \<Rightarrow> 'v \<Rightarrow> 'v" where
  "dict_get m k d = (case m k of None \<Rightarrow> d | Some v \<Rightarrow> v)"

text \<open>Lines 310 to 313: \<open>np.any(np.abs([...]) > 0.50)\<close>.\<close>

definition out_of_scope :: "GroundSegment \<Rightarrow> bool" where
  "out_of_scope segment =
     list_ex (\<lambda>c. float_gt (float_abs c) (50 / 100))
       [pm_x (fst (points segment)), pm_y (fst (points segment)),
        pm_x (snd (points segment)), pm_y (snd (points segment))]"

text \<open>Lines 310 to 320: one pass of the loop, on the value of the array drawn on.\<close>

definition draw_segment :: "image \<Rightarrow> GroundSegment \<Rightarrow> pyexn + image" where
  "draw_segment img segment =
     (if \<not> out_of_scope segment then
        (case py_int (float_mul_int (pm_y (fst (points segment))) (- 400)) of
           Inl e \<Rightarrow> Inl e | Inr c0 \<Rightarrow>
        (case py_int (float_mul_int (pm_x (fst (points segment))) (- 400)) of
           Inl e \<Rightarrow> Inl e | Inr r0 \<Rightarrow>
        (case py_int (float_mul_int (pm_y (snd (points segment))) (- 400)) of
           Inl e \<Rightarrow> Inl e | Inr c1 \<Rightarrow>
        (case py_int (float_mul_int (pm_x (snd (points segment))) (- 400)) of
           Inl e \<Rightarrow> Inl e | Inr r1 \<Rightarrow>
           Inr (cv2_line img (c0 + 200, r0 + 300) (c1 + 200, r1 + 300)
                  (dict_get color_map (gcolor segment) (0, 0, 0)) 1)))))
      else Inr img)"

text \<open>The loop draws in place on the array that \<open>r\<close> refers to.\<close>

fun draw_segments ::
  "image list \<Rightarrow> nat \<Rightarrow> GroundSegment list \<Rightarrow> pyexn option \<times> image list" where
  "draw_segments st r [] = (None, st)"
| "draw_segments st r (segment # rest) =
     (case draw_segment (st ! r) segment of
        Inl e \<Rightarrow> (Some e, st)
      | Inr img \<Rightarrow> draw_segments (st[r := img]) r rest)"

text \<open>
  The result is the reference to the image that was drawn, or the exception raised
  while drawing.
\<close>

definition debug_image ::
  "GroundProjectionNode \<Rightarrow> GroundSegment SegmentList \<Rightarrow>
   (pyexn + nat) \<times> GroundProjectionNode" where
  "debug_image self seg_list =
     (let (bg, self1) =
            (case debug_img_bg self of
               None \<Rightarrow>
                 (let (r, st) = new_array debug_background (store self)
                  in (r, self\<lparr>store := st, debug_img_bg := Some r\<rparr>))
             | Some r \<Rightarrow> (r, self));
          (img, st1) = new_array (store self1 ! bg) (store self1);
          (raised, st2) = draw_segments st1 img (segments seg_list)
      in ((case raised of Some e \<Rightarrow> Inl e | None \<Rightarrow> Inr img), self1\<lparr>store := st2\<rparr>))"

subsection \<open>lineseglist\_cb, continued\<close>

text \<open>
  \<open>num_connections\<close> is what \<open>pub_debug_img.get_num_connections()\<close> returns at the
  time of the call.
\<close>

definition lineseglist_cb ::
  "dt_computer_vision \<Rightarrow> GroundProjectionNode \<Rightarrow> PixelSegment SegmentList \<Rightarrow> nat \<Rightarrow>
   pyexn option \<times> GroundProjectionNode" where
  "lineseglist_cb lib self seglist_msg num_connections =
     (if camera_info_received self then
        (case project_segments lib self (segments seglist_msg) [] of
           Inl e \<Rightarrow> (Some e, self)
         | Inr out \<Rightarrow>
             let seglist_out = \<lparr>header = header seglist_msg, segments = out\<rparr>;
                 self1 = self\<lparr>pub_lineseglist := pub_lineseglist self @ [seglist_out]\<rparr>;
                 self2 = (if \<not> first_processing_done self1
                          then (node_log Info ''First projected segments published.'' self1)
                                 \<lparr>first_processing_done := True\<rparr>
                          else self1)
             in if 0 < num_connections then
                  (case debug_image self2 seglist_out of
                     (Inl e, self3) \<Rightarrow> (Some e, self3)
                   | (Inr img, self3) \<Rightarrow>
                       (None, self3\<lparr>pub_debug_img := pub_debug_img self3 @
                          [\<lparr>img_header = header seglist_out, img_data = store self3 ! img\<rparr>]\<rparr>))
                else (None, self2))
      else (None, node_log Warn ''Waiting for a CameraInfo message'' self))"

subsection \<open>load\_extrinsics\<close>

text \<open>
  The file system maps a path to what \<open>yaml.load\<close> makes of the file there: a parse
  error (\<open>yaml.YAMLError\<close>), bytes that are no text (\<open>UnicodeDecodeError\<close>, a
  \<open>ValueError\<close> that the handler does not catch), a mapping, or a document that is
  not a mapping.
\<close>

datatype 'v yaml_file =
  Unparsable | Undecodable | Mapping "(string \<times> 'v) list" | NotMapping

type_synonym 'v filesystem = "string \<rightharpoonup> 'v yaml_file"

definition isfile :: "'v filesystem \<Rightarrow> string \<Rightarrow> bool" where
  "isfile fs path = (fs path \<noteq> None)"

definition strip_slash :: "string \<Rightarrow> string" where
  "strip_slash s = rev (dropWhile (\<lambda>c. c = CHR ''/'') (rev (dropWhile (\<lambda>c. c = CHR ''/'') s)))"

definition path_join :: "string \<Rightarrow> string \<Rightarrow> string" where
  "path_join a b =
     (if b \<noteq> [] \<and> hd b = CHR ''/'' then b
      else if a = [] \<or> last a = CHR ''/'' then a @ b
      else a @ ''/'' @ b)"

text \<open>
  The result is what the call returns or raises, the log lines it wrote, and whether it
  called \<open>rospy.signal_shutdown\<close>. \<open>namespace\<close> is what \<open>rospy.get_namespace()\<close> returns.
\<close>

definition load_extrinsics ::
  "'v filesystem \<Rightarrow> string \<Rightarrow> (pyexn + 'v) \<times> log_entry list \<times> bool" where
  "load_extrinsics fs namespace =
     (let cali_file_folder = ''/data/config/calibrations/camera_extrinsic/'';
          cali_file = cali_file_folder @ strip_slash namespace @ ''.yaml'';
          (cali_file, lg) =
            (if \<not> isfile fs cali_file then
               (path_join cali_file_folder ''default.yaml'',
                [(Warn, ''Can't find calibration file: '' @ cali_file @ ''.'' @ [CHR 0x0A] @
                        '' Using default calibration instead.'')])
             else (cali_file, []));
          (lg, shutdown) =
            (if \<not> isfile fs cali_file then
               (lg @ [(Error, ''Found no calibration file ... aborting'')], True)
             else (lg, False))
      in case fs cali_file of
           None \<Rightarrow> (Inl FileNotFoundError, lg, shutdown)
         | Some Unparsable \<Rightarrow>
             (Inl UnboundLocalError,
              lg @ [(Error, ''Error in parsing calibration file '' @ cali_file @ '' ... aborting'')],
              True)
         | Some Undecodable \<Rightarrow> (Inl ValueError, lg, shutdown)
         | Some NotMapping \<Rightarrow> (Inl TypeError, lg, shutdown)
         | Some (Mapping calib_data) \<Rightarrow>
             (case map_of calib_data ''homography'' of
                None \<Rightarrow> (Inl KeyError, lg, shutdown)
              | Some h \<Rightarrow> (Inr h, lg, shutdown)))"

subsection \<open>Construction and the run of the node\<close>

text \<open>
  \<open>__init__\<close>: an exception raised while loading leaves no node. The log of the
  loader is the log the node starts with.
\<close>

definition init_node :: "pyfloat list filesystem \<Rightarrow> string \<Rightarrow> pyexn + GroundProjectionNode" where
  "init_node fs namespace =
     (case load_extrinsics fs namespace of
        (Inl e, lg, shutdown) \<Rightarrow> Inl e
      | (Inr h, lg, shutdown) \<Rightarrow>
          (case np_reshape h 3 3 of
             Inl e \<Rightarrow> Inl e
           | Inr H \<Rightarrow>
               Inr \<lparr>ground_projector = None, camera = None, homography = H,
                    first_processing_done = False, camera_info_received = False,
                    debug_img_bg = None, store = [], pub_lineseglist = [],
                    pub_debug_img = [], logged = lg\<rparr>))"

text \<open>
  The two subscriptions deliver messages one at a time; an exception that escapes a
  callback is caught by the subscriber and the node goes on from the state it was left in.
\<close>

datatype event =
    CameraInfoMsg CameraInfo
  | SegmentListMsg "PixelSegment SegmentList" nat

fun node_step ::
  "dt_computer_vision \<Rightarrow> GroundProjectionNode \<Rightarrow> event \<Rightarrow> GroundProjectionNode" where
  "node_step lib self (CameraInfoMsg msg) = snd (cb_camera_info self msg)"
| "node_step lib self (SegmentListMsg msg n) = snd (lineseglist_cb lib self msg n)"

fun node_run ::
  "dt_computer_vision \<Rightarrow> GroundProjectionNode \<Rightarrow> event list \<Rightarrow> GroundProjectionNode" where
  "node_run lib self [] = self"
| "node_run lib self (ev # evs) = node_run lib (node_step lib self ev) evs"


section \<open>AntiInstagramNode\<close>

text \<open>
  The bridge and the threshold estimator are outside the sources. Decoding a message
  either gives an image or raises an exception, given with the text that \<open>str\<close>
  makes of it; \<open>AntiInstagram_update\<close> is \<open>AntiInstagram.update\<close> as a function on the
  estimator, and the two thresholds are read from it.
\<close>

record ('msg, 'img, 'ai, 'thr) anti_instagram_lib =
  compressed_imgmsg_to_cv2 :: "'msg \<Rightarrow> (pyexn \<times> string) + 'img"
  AntiInstagram_update :: "'ai \<Rightarrow> 'img \<Rightarrow> 'ai"
  lower_threshold :: "'ai \<Rightarrow> 'thr"
  higher_threshold :: "'ai \<Rightarrow> 'thr"

record 'thr AntiInstagramThresholds =
  low :: 'thr
  high :: 'thr

record ('msg, 'ai, 'thr) AntiInstagramNode =
  image_msg :: "'msg option"
  ai :: 'ai
  pub :: "'thr AntiInstagramThresholds list"
  ai_logged :: "log_entry list"

definition store_image_msg ::
  "('msg, 'ai, 'thr) AntiInstagramNode \<Rightarrow> 'msg \<Rightarrow> ('msg, 'ai, 'thr) AntiInstagramNode" where
  "store_image_msg self msg = self\<lparr>image_msg := Some msg\<rparr>"

text \<open>
  Lines 64 to 70. Only a \<open>ValueError\<close> is caught; after the handler has logged it,
  \<open>return image\<close> reads a name that was never bound. With no message stored the
  bridge is handed \<open>None\<close> and fails on reading its data.
\<close>

definition decode_image_msg ::
  "('msg, 'img, 'ai, 'thr) anti_instagram_lib \<Rightarrow> ('msg, 'ai, 'thr) AntiInstagramNode \<Rightarrow>
   (pyexn + 'img) \<times> ('msg, 'ai, 'thr) AntiInstagramNode" where
  "decode_image_msg lib self =
     (case image_msg self of
        None \<Rightarrow> (Inl AttributeError, self)
      | Some msg \<Rightarrow>
          (case compressed_imgmsg_to_cv2 lib msg of
             Inr img \<Rightarrow> (Inr img, self)
           | Inl (e, txt) \<Rightarrow>
               if e = ValueError then
                 (Inl UnboundLocalError,
                  self\<lparr>ai_logged := ai_logged self @
                    [(Info, ''Anti_instagram cannot decode image: '' @ txt)]\<rparr>)
               else (Inl e, self)))"

definition calculate_new_parameters ::
  "('msg, 'img, 'ai, 'thr) anti_instagram_lib \<Rightarrow> ('msg, 'ai, 'thr) AntiInstagramNode \<Rightarrow>
   pyexn option \<times> ('msg, 'ai, 'thr) AntiInstagramNode" where
  "calculate_new_parameters lib self =
     (if image_msg self = None then
        (None, self\<lparr>ai_logged := ai_logged self @ [(Info, ''Waiting for first image!'')]\<rparr>)
      else
        (case decode_image_msg lib self of
           (Inl e, self1) \<Rightarrow> (Some e, self1)
         | (Inr img, self1) \<Rightarrow>
             let self2 = self1\<lparr>ai := AntiInstagram_update lib (ai self1) img\<rparr>;
                 msg = \<lparr>low = lower_threshold lib (ai self2),
                        high = higher_threshold lib (ai self2)\<rparr>
             in (None, self2\<lparr>pub := pub self2 @ [msg]\<rparr>)))"

section \<open>The projection the specification describes\<close>

text \<open>
  From the words of the specification: an endpoint is rectified, turned into a ray and
  intersected with the ground, in this order.
\<close>

definition spec_project_pixel ::
  "dt_computer_vision \<Rightarrow> CameraModel \<Rightarrow> GroundProjector \<Rightarrow> Pixel \<Rightarrow> pyexn + GroundPoint" where
  "spec_project_pixel lib cam gp p =
     (case rectify_pixel lib cam p of
        Inl e \<Rightarrow> Inl e
      | Inr p_rect \<Rightarrow>
          (case pixel2vector lib cam p_rect of
             Inl e \<Rightarrow> Inl e
           | Inr p_norm \<Rightarrow> vector2ground lib gp p_norm))"

section \<open>The cached background\<close>

text \<open>
  What the node keeps true of its cache: if a background is cached, its reference is
  one of the store and the array there is the background as first drawn.
\<close>

definition background_cached :: "GroundProjectionNode \<Rightarrow> bool" where
  "background_cached self =
     (case debug_img_bg self of
        None \<Rightarrow> True
      | Some bg \<Rightarrow> bg < length (store self) \<and> store self ! bg = debug_background)"

section \<open>Concrete inputs\<close>

text \<open>
  A small camera library to run the node on: no distortion, identity intrinsics, and a
  ground projector that refuses a ray on the horizon (second coordinate zero).
\<close>

definition horizon_lib :: dt_computer_vision where
  "horizon_lib =
     \<lparr>rectify_pixel = (\<lambda>cam p. Inr p),
      pixel2vector = (\<lambda>cam p.
         case px p of
           PSeq _ \<Rightarrow> Inl TypeError
         | PFloat a \<Rightarrow> (case py p of PSeq _ \<Rightarrow> Inl TypeError | PFloat b \<Rightarrow> Inr \<lparr>nx = a, ny = b\<rparr>)),
      vector2ground = (\<lambda>gp v.
         if ny v = Fin 0 then Inl (LibraryError ''unprojectable point'')
         else Inr \<lparr>gx = ny v, gy = nx v\<rparr>)\<rparr>"

definition identity9 :: "pyfloat list" where
  "identity9 = [Fin 1, Fin 0, Fin 0, Fin 0, Fin 1, Fin 0, Fin 0, Fin 0, Fin 1]"

definition default_only_fs :: "pyfloat list filesystem" where
  "default_only_fs =
     [''/data/config/calibrations/camera_extrinsic/default.yaml'' \<mapsto>
        Mapping [(''homography'', identity9)]]"

definition broken_robot_fs :: "pyfloat list filesystem" where
  "broken_robot_fs =
     [''/data/config/calibrations/camera_extrinsic/default.yaml'' \<mapsto>
        Mapping [(''homography'', identity9)],
      ''/data/config/calibrations/camera_extrinsic/duckie.yaml'' \<mapsto> Unparsable]"

definition broken_default_fs :: "pyfloat list filesystem" where
  "broken_default_fs =
     [''/data/config/calibrations/camera_extrinsic/default.yaml'' \<mapsto> Unparsable]"

definition awaiting_node :: GroundProjectionNode where
  "awaiting_node =
     \<lparr>ground_projector = None, camera = None,
      homography = [[Fin 1, Fin 0, Fin 0], [Fin 0, Fin 1, Fin 0], [Fin 0, Fin 0, Fin 1]],
      first_processing_done = False, camera_info_received = False,
      debug_img_bg = None, store = [], pub_lineseglist = [],
      pub_debug_img = [], logged = []\<rparr>"

definition info_a :: CameraInfo where
  "info_a = \<lparr>ci_width = 640, ci_height = 480, ci_K = identity9, ci_D = [],
             ci_P = [Fin 1, Fin 0, Fin 0, Fin 0, Fin 0, Fin 1, Fin 0, Fin 0,
                     Fin 0, Fin 0, Fin 1, Fin 0]\<rparr>"

definition info_b :: CameraInfo where
  "info_b = \<lparr>ci_width = 320, ci_height = 240, ci_K = map (\<lambda>_. Fin 2) identity9, ci_D = [Fin 1],
             ci_P = map (\<lambda>_. Fin 3) (ci_P info_a)\<rparr>"

definition ready_node :: GroundProjectionNode where
  "ready_node = snd (cb_camera_info awaiting_node info_a)"

text \<open>
  A received segment whose two elements are four floats each, as the indexing of
  lines 142 and 143 needs: the first pixel is \<open>(a, b)\<close>, the second \<open>(c, d)\<close>.
\<close>

definition seg4 :: "rat \<Rightarrow> rat \<Rightarrow> rat \<Rightarrow> rat \<Rightarrow> segment_color \<Rightarrow> PixelSegment" where
  "seg4 a b c d col =
     \<lparr>pixels_normalized =
        PSeq [PSeq [PFloat (Fin a), PFloat (Fin b), PFloat (Fin 0), PFloat (Fin 0)],
              PSeq [PFloat (Fin 0), PFloat (Fin 0), PFloat (Fin c), PFloat (Fin d)]],
      color = col\<rparr>"

definition batch5 :: "PixelSegment SegmentList" where
  "batch5 =
     \<lparr>header = 7,
      segments = [seg4 (1/8) (1/8) (1/4) (1/4) WHITE,
                  seg4 (1/8) (1/4) (1/4) (3/8) YELLOW,
                  seg4 (1/8) 0 (1/4) (1/4) RED,
                  seg4 (3/8) (1/8) (3/8) (1/4) WHITE,
                  seg4 (1/2) (1/8) (1/2) (1/2) OTHER]\<rparr>"

definition batch2 :: "PixelSegment SegmentList" where
  "batch2 =
     \<lparr>header = 8,
      segments = [seg4 (1/8) (1/8) (1/4) (1/4) WHITE,
                  seg4 (1/8) 2 (1/4) 3 YELLOW]\<rparr>"

text \<open>The ready node after a first debug image: the background is in the store.\<close>

definition cached_node :: GroundProjectionNode where
  "cached_node = ready_node\<lparr>store := [debug_background], debug_img_bg := Some 0\<rparr>"

text \<open>
  The doubles that the literals \<open>0.29\<close>, \<open>0.0725\<close> and \<open>0.3\<close> denote, and a
  projected segment with finite coordinates.
\<close>

definition double_0_29 :: rat where
  "double_0_29 = 5224175567749775 / 18014398509481984"

definition double_0_0725 :: rat where
  "double_0_0725 = 5224175567749775 / 72057594037927936"

definition double_0_3 :: rat where
  "double_0_3 = 5404319552844595 / 18014398509481984"


definition ground_seg :: "rat \<Rightarrow> rat \<Rightarrow> rat \<Rightarrow> rat \<Rightarrow> segment_color \<Rightarrow> GroundSegment" where
  "ground_seg x0 y0 x1 y1 col =
     \<lparr>points = (\<lparr>pm_x = Fin x0, pm_y = Fin y0, pm_z = Fin 0\<rparr>,
                \<lparr>pm_x = Fin x1, pm_y = Fin y1, pm_z = Fin 0\<rparr>),
      gcolor = col\<rparr>"

text \<open>A projected batch whose only segment lies beyond the 0.5 m of the debug image.\<close>

definition far_batch :: "GroundSegment SegmentList" where
  "far_batch = \<lparr>header = 8, segments = [ground_seg 2 (1/8) 3 (1/4) YELLOW]\<rparr>"

text \<open>A bridge that decodes the message \<open>0\<close> only, and an estimator that counts frames.\<close>

definition counting_lib :: "(nat, nat, nat, nat) anti_instagram_lib" where
  "counting_lib =
     \<lparr>compressed_imgmsg_to_cv2 =
        (\<lambda>m. if m = 0 then Inr 0 else Inl (ValueError, ''bad payload'')),
      AntiInstagram_update = (\<lambda>a img. Suc a),
      lower_threshold = (\<lambda>a. a),
      higher_threshold = (\<lambda>a. a + 100)\<rparr>"

definition stale_node :: "(nat, nat, nat) AntiInstagramNode" where
  "stale_node = \<lparr>image_msg = Some 1, ai = 5, pub = [], ai_logged = []\<rparr>"

text \<open>
  Three layouts of the endpoint data of a received segment: four floats in a row, two
  points of two floats, and two elements of four floats.
\<close>

definition flat4_segment :: PixelSegment where
  "flat4_segment =
     \<lparr>pixels_normalized =
        PSeq [PFloat (Fin 1), PFloat (Fin 2), PFloat (Fin 3), PFloat (Fin 4)],
      color = WHITE\<rparr>"

definition pairs_segment :: PixelSegment where
  "pairs_segment =
     \<lparr>pixels_normalized =
        PSeq [PSeq [PFloat (Fin 1), PFloat (Fin 2)], PSeq [PFloat (Fin 3), PFloat (Fin 4)]],
      color = WHITE\<rparr>"

definition flat4_batch :: "PixelSegment SegmentList" where
  "flat4_batch = \<lparr>header = 9, segments = [flat4_segment]\<rparr>"

definition pairs_batch :: "PixelSegment SegmentList" where
  "pairs_batch = \<lparr>header = 10, segments = [seg4 (1/8) (1/8) (1/4) (1/4) WHITE, pairs_segment]\<rparr>"

definition quads_segment :: PixelSegment where
  "quads_segment =
     \<lparr>pixels_normalized =
        PSeq [PSeq [PFloat (Fin 1), PFloat (Fin 2), PFloat (Fin 3), PFloat (Fin 4)],
              PSeq [PFloat (Fin 5), PFloat (Fin 6), PFloat (Fin 7), PFloat (Fin 8)]],
      color = WHITE\<rparr>"

section \<open>Properties\<close>


lemma project_segments_Inr:
  "project_segments lib self segs out = Inr res \<Longrightarrow>
   \<exists>new. res = out @ new \<and> length new = length segs \<and>
     (\<forall>i<length segs. project_segment lib self (segs ! i) = Inr (new ! i))"
proof (induction segs arbitrary: out res)
  case Nil
  then show ?case by simp
next
  case (Cons s segs)
  from Cons.prems obtain g where g: "project_segment lib self s = Inr g"
    and rest: "project_segments lib self segs (out @ [g]) = Inr res"
    by (auto split: sum.splits)
  from Cons.IH [OF rest] obtain new where new: "res = (out @ [g]) @ new"
    "length new = length segs"
    "\<forall>i<length segs. project_segment lib self (segs ! i) = Inr (new ! i)"
    by blast
  have "\<forall>i<length (s # segs). project_segment lib self ((s # segs) ! i) = Inr ((g # new) ! i)"
    using g new(3) by (auto simp: nth_Cons split: nat.splits)
  with new(1,2) show ?case
    by (intro exI [of _ "g # new"]) simp
qed

lemma project_segments_Inl:
  "project_segment lib self s = Inl e \<Longrightarrow> s \<in> set segs \<Longrightarrow>
   \<exists>e'. project_segments lib self segs out = Inl e'"
proof (induction segs arbitrary: out)
  case Nil
  then show ?case by simp
next
  case (Cons a segs)
  show ?case
  proof (cases "project_segment lib self a")
    case (Inl e')
    then show ?thesis by simp
  next
    case (Inr g)
    with Cons.prems have "s \<in> set segs" by auto
    from Cons.IH [OF Cons.prems(1) this] Inr show ?thesis by simp
  qed
qed

lemma project_segments_total:
  "\<forall>s\<in>set segs. \<exists>g. project_segment lib self s = Inr g \<Longrightarrow>
   \<exists>res. project_segments lib self segs out = Inr res"
proof (induction segs arbitrary: out)
  case Nil
  then show ?case by simp
next
  case (Cons a segs)
  then obtain g where "project_segment lib self a = Inr g" by auto
  with Cons show ?case by simp
qed

lemma project_segments_first_failure:
  "i < length segs \<Longrightarrow> project_segment lib self (segs ! i) = Inl e \<Longrightarrow>
   \<forall>j<i. \<exists>g. project_segment lib self (segs ! j) = Inr g \<Longrightarrow>
   project_segments lib self segs out = Inl e"
proof (induction segs arbitrary: i out)
  case Nil
  then show ?case by simp
next
  case (Cons a segs)
  show ?case
  proof (cases i)
    case 0
    with Cons.prems(2) show ?thesis by simp
  next
    case (Suc k)
    with Cons.prems(3) obtain g where g: "project_segment lib self a = Inr g"
      by fastforce
    from Suc Cons.prems have "k < length segs"
      and "project_segment lib self (segs ! k) = Inl e"
      and "\<forall>j<k. \<exists>g. project_segment lib self (segs ! j) = Inr g"
      by auto
    from Cons.IH [OF this] g show ?thesis by simp
  qed
qed

lemma draw_segments_length: "length (snd (draw_segments st r segs)) = length st"
  by (induction segs arbitrary: st) (auto split: sum.splits)

lemma draw_segments_other:
  "i \<noteq> r \<Longrightarrow> snd (draw_segments st r segs) ! i = st ! i"
  by (induction segs arbitrary: st) (auto split: sum.splits)

lemma debug_image_frame:
  "pub_lineseglist (snd (debug_image self sl)) = pub_lineseglist self \<and>
   pub_debug_img (snd (debug_image self sl)) = pub_debug_img self \<and>
   logged (snd (debug_image self sl)) = logged self \<and>
   camera (snd (debug_image self sl)) = camera self \<and>
   ground_projector (snd (debug_image self sl)) = ground_projector self \<and>
   homography (snd (debug_image self sl)) = homography self \<and>
   camera_info_received (snd (debug_image self sl)) = camera_info_received self \<and>
   first_processing_done (snd (debug_image self sl)) = first_processing_done self"
  by (simp add: debug_image_def new_array_def Let_def split: option.splits prod.splits)

lemma lineseglist_cb_frame:
  "camera (snd (lineseglist_cb lib self msg n)) = camera self \<and>
   ground_projector (snd (lineseglist_cb lib self msg n)) = ground_projector self \<and>
   homography (snd (lineseglist_cb lib self msg n)) = homography self \<and>
   camera_info_received (snd (lineseglist_cb lib self msg n)) = camera_info_received self"
proof -
  have "\<And>s r s'. debug_image s sl = (r, s') \<Longrightarrow> camera s' = camera s \<and>
     ground_projector s' = ground_projector s \<and> homography s' = homography s \<and>
     camera_info_received s' = camera_info_received s" for sl
    using debug_image_frame by (metis snd_conv)
  then show ?thesis
    by (auto simp: lineseglist_cb_def node_log_def Let_def split: sum.splits prod.splits)
qed


lemma init_node_awaiting:
  "init_node fs ns = Inr self \<Longrightarrow>
   \<not> camera_info_received self \<and> pub_lineseglist self = [] \<and> pub_debug_img self = []"
  by (auto simp: init_node_def split: prod.splits sum.splits)

lemma lineseglist_cb_not_ready:
  "\<not> camera_info_received self \<Longrightarrow>
   lineseglist_cb lib self msg n =
     (None, self\<lparr>logged := logged self @ [(Warn, ''Waiting for a CameraInfo message'')]\<rparr>)"
  by (simp add: lineseglist_cb_def node_log_def)

text \<open>
  C7. While no camera-intrinsics message has been received, a segment batch is skipped:
  the callback raises nothing and changes nothing but the log, to which it adds one
  warning. So over any run of segment batches from such a state neither a ground-space
  batch nor a debug image is published.
\<close>

theorem not_ready_skips:
  assumes "\<not> camera_info_received self"
  shows "lineseglist_cb lib self msg n =
           (None, self\<lparr>logged := logged self @ [(Warn, ''Waiting for a CameraInfo message'')]\<rparr>)
       \<and> node_run lib self (map (\<lambda>(m, k). SegmentListMsg m k) batches) =
           self\<lparr>logged := logged self @
             replicate (length batches) (Warn, ''Waiting for a CameraInfo message'')\<rparr>"
proof
  show "lineseglist_cb lib self msg n =
          (None, self\<lparr>logged := logged self @ [(Warn, ''Waiting for a CameraInfo message'')]\<rparr>)"
    using assms by (rule lineseglist_cb_not_ready)
next
  from assms
  show "node_run lib self (map (\<lambda>(m, k). SegmentListMsg m k) batches) =
          self\<lparr>logged := logged self @
            replicate (length batches) (Warn, ''Waiting for a CameraInfo message'')\<rparr>"
  proof (induction batches arbitrary: self)
    case Nil
    then show ?case by simp
  next
    case (Cons b batches)
    obtain m k where b: "b = (m, k)" by (cases b)
    let ?w = "(Warn, ''Waiting for a CameraInfo message'')"
    let ?s1 = "self\<lparr>logged := logged self @ [?w]\<rparr>"
    have step: "node_step lib self (SegmentListMsg m k) = ?s1"
      using Cons.prems by (simp add: lineseglist_cb_not_ready)
    have "\<not> camera_info_received ?s1" using Cons.prems by simp
    from Cons.IH [OF this]
    have "node_run lib ?s1 (map (\<lambda>(m, k). SegmentListMsg m k) batches) =
            ?s1\<lparr>logged := logged ?s1 @ replicate (length batches) ?w\<rparr>" .
    then show ?case
      using step b by (simp add: replicate_app_Cons_same)
  qed
qed

theorem not_ready_skips_witness:
  "\<not> camera_info_received awaiting_node \<and>
   lineseglist_cb horizon_lib awaiting_node batch5 1 =
     (None, awaiting_node\<lparr>logged := logged awaiting_node @
        [(Warn, ''Waiting for a CameraInfo message'')]\<rparr>) \<and>
   node_run horizon_lib awaiting_node
     (map (\<lambda>(m, k). SegmentListMsg m k) [(batch5, 1), (batch2, 0)]) =
     awaiting_node\<lparr>logged := logged awaiting_node @
        replicate (length [(batch5, 1 :: nat), (batch2, 0)])
          (Warn, ''Waiting for a CameraInfo message'')\<rparr>"
proof -
  have a: "\<not> camera_info_received awaiting_node"
    by (simp add: awaiting_node_def)
  from a not_ready_skips [OF a, of horizon_lib batch5 1 "[(batch5, 1), (batch2, 0)]"]
  show ?thesis by (rule conjI)
qed


lemma cb_camera_info_ready:
  "camera_info_received self \<Longrightarrow> cb_camera_info self msg = (None, self)"
  by (simp add: cb_camera_info_def)

lemma node_step_ready:
  "camera_info_received self \<Longrightarrow>
   camera (node_step lib self ev) = camera self \<and>
   ground_projector (node_step lib self ev) = ground_projector self \<and>
   camera_info_received (node_step lib self ev)"
  by (cases ev) (simp_all add: cb_camera_info_ready lineseglist_cb_frame)

lemma node_run_ready:
  "camera_info_received self \<Longrightarrow>
   camera (node_run lib self evs) = camera self \<and>
   ground_projector (node_run lib self evs) = ground_projector self \<and>
   camera_info_received (node_run lib self evs)"
proof (induction evs arbitrary: self)
  case Nil
  then show ?case by simp
next
  case (Cons ev evs)
  from node_step_ready [OF Cons.prems, of lib ev]
  have s: "camera (node_step lib self ev) = camera self"
    "ground_projector (node_step lib self ev) = ground_projector self"
    "camera_info_received (node_step lib self ev)"
    by simp_all
  from Cons.IH [OF s(3)] s(1,2) show ?case by simp
qed

text \<open>
  C3. The first camera-intrinsics message (nine entries of K, twelve of P, as the
  message type has them) builds the camera model and the ground projector from its
  contents and sets the flag. Once the flag is set, a further intrinsics message
  changes nothing at all, and over any run of later messages the camera model and the
  ground projector stay the ones first built and the flag stays set.
\<close>

theorem camera_info_latch:
  "(\<not> camera_info_received self \<and> length (ci_K msg) = 9 \<and> length (ci_P msg) = 12 \<longrightarrow>
      (let cam = \<lparr>cm_width = ci_width msg, cm_height = ci_height msg,
                   cm_K = rows 3 3 (ci_K msg), cm_D = ci_D msg,
                   cm_P = rows 3 4 (ci_P msg), cm_H = homography self\<rparr>;
           self' = node_run lib self (CameraInfoMsg msg # evs)
       in cb_camera_info self msg =
            (None, self\<lparr>camera := Some cam, ground_projector := Some \<lparr>gp_camera = cam\<rparr>,
                         camera_info_received := True\<rparr>) \<and>
          camera self' = Some cam \<and>
          ground_projector self' = Some \<lparr>gp_camera = cam\<rparr> \<and>
          camera_info_received self')) \<and>
   (camera_info_received self \<longrightarrow>
      cb_camera_info self msg = (None, self) \<and>
      camera (node_run lib self evs) = camera self \<and>
      ground_projector (node_run lib self evs) = ground_projector self \<and>
      camera_info_received (node_run lib self evs))"
proof (intro conjI impI)
  assume a: "\<not> camera_info_received self \<and> length (ci_K msg) = 9 \<and> length (ci_P msg) = 12"
  define cam where "cam = \<lparr>cm_width = ci_width msg, cm_height = ci_height msg,
     cm_K = rows 3 3 (ci_K msg), cm_D = ci_D msg,
     cm_P = rows 3 4 (ci_P msg), cm_H = homography self\<rparr>"
  define s1 where "s1 = self\<lparr>camera := Some cam, ground_projector := Some \<lparr>gp_camera = cam\<rparr>,
     camera_info_received := True\<rparr>"
  have cb: "cb_camera_info self msg = (None, s1)"
    using a by (simp add: cb_camera_info_def np_reshape_def cam_def s1_def Let_def)
  have r: "camera_info_received s1" by (simp add: s1_def)
  from node_run_ready [OF r, of lib evs] cb
  have "camera (node_run lib self (CameraInfoMsg msg # evs)) = Some cam"
    "ground_projector (node_run lib self (CameraInfoMsg msg # evs)) = Some \<lparr>gp_camera = cam\<rparr>"
    "camera_info_received (node_run lib self (CameraInfoMsg msg # evs))"
    by (simp_all add: s1_def)
  with cb
  show "let cam = \<lparr>cm_width = ci_width msg, cm_height = ci_height msg,
                   cm_K = rows 3 3 (ci_K msg), cm_D = ci_D msg,
                   cm_P = rows 3 4 (ci_P msg), cm_H = homography self\<rparr>;
           self' = node_run lib self (CameraInfoMsg msg # evs)
       in cb_camera_info self msg =
            (None, self\<lparr>camera := Some cam, ground_projector := Some \<lparr>gp_camera = cam\<rparr>,
                         camera_info_received := True\<rparr>) \<and>
          camera self' = Some cam \<and>
          ground_projector self' = Some \<lparr>gp_camera = cam\<rparr> \<and>
          camera_info_received self'"
    unfolding Let_def cam_def [symmetric] s1_def [symmetric] by simp
next
  assume "camera_info_received self"
  then show "cb_camera_info self msg = (None, self)" by (rule cb_camera_info_ready)
next
  assume "camera_info_received self"
  from node_run_ready [OF this] show "camera (node_run lib self evs) = camera self" by simp
next
  assume "camera_info_received self"
  from node_run_ready [OF this]
  show "ground_projector (node_run lib self evs) = ground_projector self" by simp
next
  assume "camera_info_received self"
  from node_run_ready [OF this] show "camera_info_received (node_run lib self evs)" by simp
qed


theorem camera_info_latch_witness:
  "(\<not> camera_info_received awaiting_node \<and> length (ci_K info_a) = 9 \<and>
      length (ci_P info_a) = 12) \<and>
   camera (node_run horizon_lib awaiting_node
      [CameraInfoMsg info_a, CameraInfoMsg info_b, SegmentListMsg batch2 1]) =
     Some \<lparr>cm_width = ci_width info_a, cm_height = ci_height info_a,
            cm_K = rows 3 3 (ci_K info_a), cm_D = ci_D info_a,
            cm_P = rows 3 4 (ci_P info_a), cm_H = homography awaiting_node\<rparr> \<and>
   camera_info_received ready_node \<and>
   cb_camera_info ready_node info_b = (None, ready_node) \<and>
   camera_info_received (node_run horizon_lib ready_node
      [CameraInfoMsg info_b, SegmentListMsg batch2 1])"
proof -
  have h1: "\<not> camera_info_received awaiting_node \<and> length (ci_K info_a) = 9 \<and>
      length (ci_P info_a) = 12"
    by (simp add: awaiting_node_def info_a_def identity9_def)
  have h2: "camera_info_received ready_node"
    by (simp add: ready_node_def cb_camera_info_def awaiting_node_def info_a_def
        identity9_def np_reshape_def Let_def)
  from h1 camera_info_latch [of awaiting_node info_a horizon_lib
      "[CameraInfoMsg info_b, SegmentListMsg batch2 1]"]
  have c1: "camera (node_run horizon_lib awaiting_node
      [CameraInfoMsg info_a, CameraInfoMsg info_b, SegmentListMsg batch2 1]) =
     Some \<lparr>cm_width = ci_width info_a, cm_height = ci_height info_a,
            cm_K = rows 3 3 (ci_K info_a), cm_D = ci_D info_a,
            cm_P = rows 3 4 (ci_P info_a), cm_H = homography awaiting_node\<rparr>"
    unfolding Let_def by blast
  from h2 camera_info_latch [of ready_node info_b horizon_lib
      "[CameraInfoMsg info_b, SegmentListMsg batch2 1]"]
  have c2: "cb_camera_info ready_node info_b = (None, ready_node) \<and>
    camera_info_received (node_run horizon_lib ready_node
      [CameraInfoMsg info_b, SegmentListMsg batch2 1])"
    by blast
  from h1 c1 h2 c2 show ?thesis by blast
qed


lemma project_segment_Inr_D:
  "project_segment lib self s = Inr g \<Longrightarrow>
   \<exists>cam gp p0 p1 g0 g1.
      camera self = Some cam \<and> ground_projector self = Some gp \<and>
      segment_pixels s = Inr (p0, p1) \<and>
      spec_project_pixel lib cam gp p0 = Inr g0 \<and>
      spec_project_pixel lib cam gp p1 = Inr g1 \<and>
      g = \<lparr>points = (fill_point_msg g0, fill_point_msg g1), gcolor = color s\<rparr>"
  by (auto simp: project_segment_def spec_project_pixel_def
      split: sum.split_asm option.split_asm prod.split_asm)

lemma project_segment_Inr_I:
  "camera self = Some cam \<Longrightarrow> ground_projector self = Some gp \<Longrightarrow>
   segment_pixels s = Inr (p0, p1) \<Longrightarrow>
   spec_project_pixel lib cam gp p0 = Inr g0 \<Longrightarrow>
   spec_project_pixel lib cam gp p1 = Inr g1 \<Longrightarrow>
   project_segment lib self s =
     Inr \<lparr>points = (fill_point_msg g0, fill_point_msg g1), gcolor = color s\<rparr>"
  by (auto simp: project_segment_def spec_project_pixel_def
      split: sum.split_asm option.split_asm prod.split_asm)

lemma lineseglist_cb_published:
  assumes "camera_info_received self"
    and "project_segments lib self (segments msg) [] = Inr out"
  shows "pub_lineseglist (snd (lineseglist_cb lib self msg n)) =
         pub_lineseglist self @ [\<lparr>header = header msg, segments = out\<rparr>]"
proof -
  have "\<And>s sl. pub_lineseglist (snd (debug_image s sl)) = pub_lineseglist s"
    by (simp add: debug_image_frame)
  then have "\<And>s sl r s'. debug_image s sl = (r, s') \<Longrightarrow> pub_lineseglist s' = pub_lineseglist s"
    by (metis snd_conv)
  with assms show ?thesis
    by (auto simp: lineseglist_cb_def node_log_def Let_def split: sum.splits prod.splits)
qed

lemma lineseglist_cb_raised:
  "camera_info_received self \<Longrightarrow> project_segments lib self (segments msg) [] = Inl e \<Longrightarrow>
   lineseglist_cb lib self msg n = (Some e, self)"
  by (simp add: lineseglist_cb_def)

text \<open>
  What a published batch is made of: it has the header and the length of the received
  one, and its segment \<open>i\<close> carries the color of received segment \<open>i\<close> and, as its
  two points, the two pixels that lines 141 to 143 extract from received segment \<open>i\<close>,
  each rectified, turned into a ray and projected on the ground.
\<close>

lemma published_batch_of_extracted_pixels:
  assumes "camera_info_received self"
  shows "(pub_lineseglist (snd (lineseglist_cb lib self msg n)) = pub_lineseglist self @ [batch] \<longrightarrow>
            header batch = header msg \<and>
            length (segments batch) = length (segments msg) \<and>
            (\<forall>i<length (segments msg).
               gcolor (segments batch ! i) = color (segments msg ! i) \<and>
               (\<exists>cam gp p0 p1 g0 g1.
                  camera self = Some cam \<and> ground_projector self = Some gp \<and>
                  segment_pixels (segments msg ! i) = Inr (p0, p1) \<and>
                  spec_project_pixel lib cam gp p0 = Inr g0 \<and>
                  spec_project_pixel lib cam gp p1 = Inr g1 \<and>
                  points (segments batch ! i) = (fill_point_msg g0, fill_point_msg g1)))) \<and>
         ((\<forall>s\<in>set (segments msg). \<exists>g. project_segment lib self s = Inr g) \<longrightarrow>
            (\<exists>b. pub_lineseglist (snd (lineseglist_cb lib self msg n)) = pub_lineseglist self @ [b]))"
proof (intro conjI impI)
  assume p: "pub_lineseglist (snd (lineseglist_cb lib self msg n)) = pub_lineseglist self @ [batch]"
  obtain out where out: "project_segments lib self (segments msg) [] = Inr out"
  proof (cases "project_segments lib self (segments msg) []")
    case (Inl e)
    from lineseglist_cb_raised [OF assms Inl] p have False by simp
    then show ?thesis ..
  next
    case (Inr out)
    then show ?thesis by (rule that)
  qed
  from lineseglist_cb_published [OF assms out] p
  have b: "batch = \<lparr>header = header msg, segments = out\<rparr>" by simp
  from project_segments_Inr [OF out]
  have len: "length out = length (segments msg)"
    and each: "\<forall>i<length (segments msg). project_segment lib self (segments msg ! i) = Inr (out ! i)"
    by auto
  show "header batch = header msg" using b by simp
  show "length (segments batch) = length (segments msg)" using b len by simp
  show "\<forall>i<length (segments msg).
          gcolor (segments batch ! i) = color (segments msg ! i) \<and>
          (\<exists>cam gp p0 p1 g0 g1.
             camera self = Some cam \<and> ground_projector self = Some gp \<and>
             segment_pixels (segments msg ! i) = Inr (p0, p1) \<and>
             spec_project_pixel lib cam gp p0 = Inr g0 \<and>
             spec_project_pixel lib cam gp p1 = Inr g1 \<and>
             points (segments batch ! i) = (fill_point_msg g0, fill_point_msg g1))"
  proof (intro allI impI)
    fix i assume "i < length (segments msg)"
    with each have "project_segment lib self (segments msg ! i) = Inr (out ! i)" by simp
    then obtain cam gp p0 p1 g0 g1 where
      "camera self = Some cam" "ground_projector self = Some gp"
      "segment_pixels (segments msg ! i) = Inr (p0, p1)"
      "spec_project_pixel lib cam gp p0 = Inr g0"
      "spec_project_pixel lib cam gp p1 = Inr g1"
      "out ! i = \<lparr>points = (fill_point_msg g0, fill_point_msg g1),
                  gcolor = color (segments msg ! i)\<rparr>"
      by (blast dest: project_segment_Inr_D)
    then show "gcolor (segments batch ! i) = color (segments msg ! i) \<and>
          (\<exists>cam gp p0 p1 g0 g1.
             camera self = Some cam \<and> ground_projector self = Some gp \<and>
             segment_pixels (segments msg ! i) = Inr (p0, p1) \<and>
             spec_project_pixel lib cam gp p0 = Inr g0 \<and>
             spec_project_pixel lib cam gp p1 = Inr g1 \<and>
             points (segments batch ! i) = (fill_point_msg g0, fill_point_msg g1))"
      using b by simp
  qed
next
  assume "\<forall>s\<in>set (segments msg). \<exists>g. project_segment lib self s = Inr g"
  from project_segments_total [OF this]
  obtain out where "project_segments lib self (segments msg) [] = Inr out" by blast
  from lineseglist_cb_published [OF assms this]
  show "\<exists>b. pub_lineseglist (snd (lineseglist_cb lib self msg n)) = pub_lineseglist self @ [b]"
    by blast
qed


lemma ready_node_fields:
  "camera_info_received ready_node"
  "camera ready_node \<noteq> None"
  "ground_projector ready_node \<noteq> None"
  "pub_lineseglist ready_node = []"
  "pub_debug_img ready_node = []"
  "debug_img_bg ready_node = None"
  "store ready_node = []"
  "\<not> first_processing_done ready_node"
  by (simp_all add: ready_node_def cb_camera_info_def awaiting_node_def info_a_def
      identity9_def np_reshape_def Let_def)

lemma project_seg4:
  "project_segment horizon_lib ready_node (seg4 a b c d col) =
     (if b = 0 \<or> d = 0 then Inl (LibraryError ''unprojectable point'')
      else Inr (ground_seg b a d c col))"
proof -
  obtain cam where cam: "camera ready_node = Some cam"
    using ready_node_fields(2) by blast
  obtain gp where gp: "ground_projector ready_node = Some gp"
    using ready_node_fields(3) by blast
  have px: "segment_pixels (seg4 a b c d col) =
    Inr (\<lparr>px = PFloat (Fin a), py = PFloat (Fin b)\<rparr>, \<lparr>px = PFloat (Fin c), py = PFloat (Fin d)\<rparr>)"
    by (simp add: segment_pixels_def seg4_def)
  have col: "color (seg4 a b c d col) = col"
    by (simp add: seg4_def)
  show ?thesis
    by (simp add: project_segment_def px cam gp col horizon_lib_def ground_seg_def
        fill_point_msg_def)
qed

lemma batch2_projected:
  "project_segments horizon_lib ready_node (segments batch2) [] =
     Inr [ground_seg (1/8) (1/8) (1/4) (1/4) WHITE, ground_seg 2 (1/8) 3 (1/4) YELLOW]"
  by (simp add: batch2_def project_seg4)

text \<open>
  C1, as the code has it. With the node ready, a received segment whose projection
  raises ends the callback before anything is published, and the node is left as it
  was: no segment is dropped from a batch. The exception that ends the callback is the
  one of the first such segment. When every received segment can be projected, one
  batch with as many segments as were received is published.
\<close>

theorem failing_segment_aborts_batch:
  assumes "camera_info_received self"
  shows "(s \<in> set (segments msg) \<and> project_segment lib self s = Inl e \<longrightarrow>
            (\<exists>e'. lineseglist_cb lib self msg n = (Some e', self))) \<and>
         ((\<forall>s\<in>set (segments msg). \<exists>g. project_segment lib self s = Inr g) \<longrightarrow>
            (\<exists>out. length out = length (segments msg) \<and>
               pub_lineseglist (snd (lineseglist_cb lib self msg n)) =
                 pub_lineseglist self @ [\<lparr>header = header msg, segments = out\<rparr>])) \<and>
         (i < length (segments msg) \<and> project_segment lib self (segments msg ! i) = Inl e \<and>
          (\<forall>j<i. \<exists>g. project_segment lib self (segments msg ! j) = Inr g) \<longrightarrow>
            lineseglist_cb lib self msg n = (Some e, self))"
proof (intro conjI impI)
  assume "s \<in> set (segments msg) \<and> project_segment lib self s = Inl e"
  then obtain e' where "project_segments lib self (segments msg) [] = Inl e'"
    using project_segments_Inl by blast
  from lineseglist_cb_raised [OF assms this]
  show "\<exists>e'. lineseglist_cb lib self msg n = (Some e', self)" by blast
next
  assume "\<forall>s\<in>set (segments msg). \<exists>g. project_segment lib self s = Inr g"
  from project_segments_total [OF this]
  obtain out where out: "project_segments lib self (segments msg) [] = Inr out" by blast
  from project_segments_Inr [OF out] have "length out = length (segments msg)" by auto
  with lineseglist_cb_published [OF assms out]
  show "\<exists>out. length out = length (segments msg) \<and>
               pub_lineseglist (snd (lineseglist_cb lib self msg n)) =
                 pub_lineseglist self @ [\<lparr>header = header msg, segments = out\<rparr>]"
    by blast
next
  assume a: "i < length (segments msg) \<and>
    project_segment lib self (segments msg ! i) = Inl e \<and>
    (\<forall>j<i. \<exists>g. project_segment lib self (segments msg ! j) = Inr g)"
  then have "project_segments lib self (segments msg) [] = Inl e"
    by (intro project_segments_first_failure [of i]) simp_all
  with assms show "lineseglist_cb lib self msg n = (Some e, self)"
    by (rule lineseglist_cb_raised)
qed

theorem failing_segment_aborts_batch_witness:
  "camera_info_received ready_node \<and>
   seg4 (1/8) 0 (1/4) (1/4) RED \<in> set (segments batch5) \<and>
   segments batch5 ! 2 = seg4 (1/8) 0 (1/4) (1/4) RED \<and>
   map (isl \<circ> project_segment horizon_lib ready_node) (take 2 (segments batch5)) =
     [False, False] \<and>
   project_segment horizon_lib ready_node (seg4 (1/8) 0 (1/4) (1/4) RED) =
     Inl (LibraryError ''unprojectable point'') \<and>
   (\<exists>e'. lineseglist_cb horizon_lib ready_node batch5 1 = (Some e', ready_node)) \<and>
   lineseglist_cb horizon_lib ready_node batch5 1 =
     (Some (LibraryError ''unprojectable point''), ready_node) \<and>
   map (isl \<circ> project_segment horizon_lib ready_node) (segments batch2) = [False, False] \<and>
   (\<exists>out. length out = length (segments batch2) \<and>
      pub_lineseglist (snd (lineseglist_cb horizon_lib ready_node batch2 1)) =
        pub_lineseglist ready_node @ [\<lparr>header = header batch2, segments = out\<rparr>])"
proof -
  let ?e = "LibraryError ''unprojectable point''"
  have r: "camera_info_received ready_node" by (rule ready_node_fields)
  have m: "seg4 (1/8) 0 (1/4) (1/4) RED \<in> set (segments batch5)"
    by (simp add: batch5_def)
  have m2: "segments batch5 ! 2 = seg4 (1/8) 0 (1/4) (1/4) RED"
    by (simp add: batch5_def)
  have f: "project_segment horizon_lib ready_node (seg4 (1/8) 0 (1/4) (1/4) RED) = Inl ?e"
    by (simp add: project_seg4)
  have p: "map (isl \<circ> project_segment horizon_lib ready_node) (take 2 (segments batch5)) =
     [False, False]"
    by (simp add: batch5_def project_seg4)
  have a: "\<forall>s\<in>set (segments batch2). \<exists>g. project_segment horizon_lib ready_node s = Inr g"
    by (simp add: batch2_def project_seg4)
  have a': "map (isl \<circ> project_segment horizon_lib ready_node) (segments batch2) = [False, False]"
    by (simp add: batch2_def project_seg4)
  have i: "2 < length (segments batch5) \<and>
    project_segment horizon_lib ready_node (segments batch5 ! 2) = Inl ?e \<and>
    (\<forall>j<2. \<exists>g. project_segment horizon_lib ready_node (segments batch5 ! j) = Inr g)"
    by (simp add: batch5_def project_seg4 less_Suc_eq numeral_2_eq_2)
  from failing_segment_aborts_batch [OF r, of "seg4 (1/8) 0 (1/4) (1/4) RED" batch5
      horizon_lib ?e 1 2] m f i
  have c1: "\<exists>e'. lineseglist_cb horizon_lib ready_node batch5 1 = (Some e', ready_node)"
    and c3: "lineseglist_cb horizon_lib ready_node batch5 1 = (Some ?e, ready_node)"
    by blast+
  from failing_segment_aborts_batch [OF r, of _ batch2 horizon_lib _ 1] a
  have c2: "\<exists>out. length out = length (segments batch2) \<and>
      pub_lineseglist (snd (lineseglist_cb horizon_lib ready_node batch2 1)) =
        pub_lineseglist ready_node @ [\<lparr>header = header batch2, segments = out\<rparr>]"
    by blast
  from r m m2 p f c1 c3 a' c2 show ?thesis by blast
qed

theorem dropped_segment_counterexample:
  "camera_info_received ready_node \<and>
   length (segments batch5) = 5 \<and>
   map (isl \<circ> project_segment horizon_lib ready_node) (segments batch5) =
     [False, False, True, False, False] \<and>
   lineseglist_cb horizon_lib ready_node batch5 0 =
     (Some (LibraryError ''unprojectable point''), ready_node) \<and>
   pub_lineseglist (snd (lineseglist_cb horizon_lib ready_node batch5 0)) = []"
proof -
  have r: "camera_info_received ready_node" by (rule ready_node_fields)
  have e: "project_segments horizon_lib ready_node (segments batch5) [] =
     Inl (LibraryError ''unprojectable point'')"
    by (simp add: batch5_def project_seg4)
  have c: "lineseglist_cb horizon_lib ready_node batch5 0 =
     (Some (LibraryError ''unprojectable point''), ready_node)"
    using r e by (rule lineseglist_cb_raised)
  have m: "map (isl \<circ> project_segment horizon_lib ready_node) (segments batch5) =
     [False, False, True, False, False]"
    by (simp add: batch5_def project_seg4)
  have l: "length (segments batch5) = 5" by (simp add: batch5_def)
  from r l m c ready_node_fields(4) show ?thesis by simp
qed


lemma round_half_even_bounds: "\<lfloor>q\<rfloor> \<le> round_half_even q \<and> round_half_even q \<le> \<lceil>q\<rceil>"
proof -
  have "q - of_int \<lfloor>q\<rfloor> \<noteq> 0 \<Longrightarrow> \<lfloor>q\<rfloor> + 1 \<le> \<lceil>q\<rceil>"
    by (metis ceiling_altdef eq_iff_diff_eq_0 order_refl)
  moreover have "\<lfloor>q\<rfloor> \<le> \<lceil>q\<rceil>" by (simp add: floor_le_ceiling)
  ultimately show ?thesis
    by (auto simp: round_half_even_def Let_def)
qed

lemma trunc_rat_bounds: "\<lfloor>w\<rfloor> \<le> trunc_rat w \<and> trunc_rat w \<le> \<lceil>w\<rceil>"
  by (simp add: trunc_rat_def ceiling_def floor_le_ceiling [unfolded ceiling_def])

lemma ilog2_le_52:
  assumes "0 < q" and "q < 2 ^ 53"
  shows "ilog2 q \<le> 52"
proof (cases "1 \<le> q")
  case True
  from assms(2) have "\<lfloor>q\<rfloor> < 2 ^ 53"
    by (simp add: floor_less_iff)
  then have "bitlen \<lfloor>q\<rfloor> \<le> 53"
    using bitlen_le_iff_power [of "\<lfloor>q\<rfloor>" 53] by simp
  with True show ?thesis by (simp add: ilog2_def)
next
  case False
  have "0 \<le> bitlen (\<lceil>1 / q\<rceil> - 1)" by (rule bitlen_nonneg)
  with False show ?thesis by (simp add: ilog2_def)
qed

lemma round_double_between:
  assumes "\<bar>r\<bar> < 2 ^ 53"
  shows "\<exists>w. round_double r = Fin w \<and> of_int \<lfloor>r\<rfloor> \<le> w \<and> w \<le> of_int \<lceil>r\<rceil>"
proof (cases "r = 0")
  case True
  then show ?thesis by (simp add: round_double_def)
next
  case False
  define e where "e = max (ilog2 \<bar>r\<bar> - 52) (- 1074)"
  define k where "k = nat (- e)"
  define q where "q = r * 2 ^ k"
  define w where "w = of_int (round_half_even q) / (2 ^ k :: rat)"
  from False assms have "ilog2 \<bar>r\<bar> \<le> 52" by (intro ilog2_le_52) simp_all
  then have e: "e \<le> 0" by (simp add: e_def)
  have p: "pow2 e = 1 / 2 ^ k"
  proof (cases "e = 0")
    case True
    then show ?thesis by (simp add: pow2_def k_def)
  next
    case False
    with e show ?thesis by (simp add: pow2_def k_def)
  qed
  have pos: "(0 :: rat) < 2 ^ k" by simp
  have lo: "of_int \<lfloor>r\<rfloor> \<le> w"
  proof -
    have "(of_int (\<lfloor>r\<rfloor> * 2 ^ k) :: rat) \<le> q"
      by (simp add: q_def)
    then have "\<lfloor>r\<rfloor> * 2 ^ k \<le> \<lfloor>q\<rfloor>" by (simp add: le_floor_iff)
    also have "\<dots> \<le> round_half_even q" using round_half_even_bounds by blast
    finally have "(of_int (\<lfloor>r\<rfloor> * 2 ^ k) :: rat) \<le> of_int (round_half_even q)"
      by (simp only: of_int_le_iff)
    then have "(of_int \<lfloor>r\<rfloor> :: rat) * 2 ^ k \<le> of_int (round_half_even q)" by simp
    then show ?thesis unfolding w_def using pos by (simp add: pos_le_divide_eq)
  qed
  have hi: "w \<le> of_int \<lceil>r\<rceil>"
  proof -
    have "q \<le> (of_int (\<lceil>r\<rceil> * 2 ^ k) :: rat)"
      by (simp add: q_def)
    then have "\<lceil>q\<rceil> \<le> \<lceil>r\<rceil> * 2 ^ k" by (simp add: ceiling_le_iff)
    moreover have "round_half_even q \<le> \<lceil>q\<rceil>" using round_half_even_bounds by blast
    ultimately have "round_half_even q \<le> \<lceil>r\<rceil> * 2 ^ k" by linarith
    then have "(of_int (round_half_even q) :: rat) \<le> of_int (\<lceil>r\<rceil> * 2 ^ k)"
      by (simp only: of_int_le_iff)
    then have "(of_int (round_half_even q) :: rat) \<le> of_int \<lceil>r\<rceil> * 2 ^ k" by simp
    then show ?thesis unfolding w_def using pos by (simp add: pos_divide_le_eq)
  qed
  have "\<bar>w\<bar> \<le> 2 ^ 53"
  proof -
    from assms have "- (2 ^ 53) < r" "r < 2 ^ 53" by (simp_all add: abs_less_iff)
    then have "- (2 ^ 53) \<le> \<lfloor>r\<rfloor>" "\<lceil>r\<rceil> \<le> 2 ^ 53"
      by (simp_all add: le_floor_iff ceiling_le_iff)
    then have "(of_int (- (2 ^ 53)) :: rat) \<le> of_int \<lfloor>r\<rfloor>"
      "(of_int \<lceil>r\<rceil> :: rat) \<le> of_int (2 ^ 53)"
      by (simp_all only: of_int_le_iff)
    then have "- (2 ^ 53) \<le> (of_int \<lfloor>r\<rfloor> :: rat)" "(of_int \<lceil>r\<rceil> :: rat) \<le> 2 ^ 53"
      by simp_all
    with lo hi have "- (2 ^ 53) \<le> w" "w \<le> 2 ^ 53" by linarith+
    then show ?thesis by (simp add: abs_le_iff)
  qed
  also have "(2 :: rat) ^ 53 < 2 ^ 1024" by simp
  finally have nov: "\<not> 2 ^ 1024 \<le> \<bar>w\<bar>" by simp
  have "round_double r = Fin w"
    using False nov
    by (simp add: round_double_def e_def [symmetric] p w_def q_def Let_def)
  with lo hi show ?thesis by blast
qed

lemma scaled_coordinate:
  assumes "\<bar>c\<bar> \<le> 1/2"
  shows "\<exists>k. py_int (float_mul_int (Fin c) (- 400)) = Inr k \<and>
           \<lfloor>c * - 400\<rfloor> \<le> k \<and> k \<le> \<lceil>c * - 400\<rceil>"
proof -
  have "\<bar>c * - 400\<bar> = \<bar>c\<bar> * 400" by (simp add: abs_mult)
  also have "\<dots> \<le> 200" using assms by simp
  also have "(200 :: rat) < 2 ^ 53" by simp
  finally have "\<bar>c * - 400\<bar> < 2 ^ 53" .
  from round_double_between [OF this]
  obtain w where w: "round_double (c * - 400) = Fin w"
    "of_int \<lfloor>c * - 400\<rfloor> \<le> w" "w \<le> of_int \<lceil>c * - 400\<rceil>"
    by blast
  from w(2) have "\<lfloor>c * - 400\<rfloor> \<le> \<lfloor>w\<rfloor>" by (simp add: le_floor_iff)
  moreover from w(3) have "\<lceil>w\<rceil> \<le> \<lceil>c * - 400\<rceil>" by (simp add: ceiling_le_iff)
  moreover note trunc_rat_bounds [of w]
  ultimately have "\<lfloor>c * - 400\<rfloor> \<le> trunc_rat w \<and> trunc_rat w \<le> \<lceil>c * - 400\<rceil>"
    by linarith
  moreover have "py_int (float_mul_int (Fin c) (- 400)) = Inr (trunc_rat w)"
    using w(1) by simp
  ultimately show ?thesis by blast
qed

lemma scaled_zero: "py_int (float_mul_int (Fin 0) (- 400)) = Inr 0"
  by (simp add: round_double_def trunc_rat_def)

lemma in_scope_finite:
  assumes "pm_x (fst (points s)) = Fin x0" "pm_y (fst (points s)) = Fin y0"
    "pm_x (snd (points s)) = Fin x1" "pm_y (snd (points s)) = Fin y1"
  shows "out_of_scope s \<longleftrightarrow> 1/2 < \<bar>x0\<bar> \<or> 1/2 < \<bar>y0\<bar> \<or> 1/2 < \<bar>x1\<bar> \<or> 1/2 < \<bar>y1\<bar>"
  using assms by (simp add: out_of_scope_def)

lemma draw_segment_finite:
  assumes "pm_x (fst (points s)) = Fin x0" "pm_y (fst (points s)) = Fin y0"
    "pm_x (snd (points s)) = Fin x1" "pm_y (snd (points s)) = Fin y1"
    and "\<not> out_of_scope s"
    and "py_int (float_mul_int (Fin y0) (- 400)) = Inr c0"
    and "py_int (float_mul_int (Fin x0) (- 400)) = Inr r0"
    and "py_int (float_mul_int (Fin y1) (- 400)) = Inr c1"
    and "py_int (float_mul_int (Fin x1) (- 400)) = Inr r1"
  shows "draw_segment img s =
     Inr (cv2_line img (c0 + 200, r0 + 300) (c1 + 200, r1 + 300)
            (dict_get color_map (gcolor s) (0, 0, 0)) 1)"
  using assms by (simp add: draw_segment_def)

lemma draw_segment_out_of_scope: "out_of_scope s \<Longrightarrow> draw_segment img s = Inr img"
  by (simp add: draw_segment_def)

lemma draw_segments_filter:
  "draw_segments st r segs = draw_segments st r (filter (\<lambda>s. \<not> out_of_scope s) segs)"
  by (induction segs arbitrary: st) (simp_all add: draw_segment_out_of_scope split: sum.splits)

lemma draw_segments_all_out:
  "\<forall>s\<in>set segs. out_of_scope s \<Longrightarrow> draw_segments st r segs = (None, st)"
  by (induction segs arbitrary: st) (simp_all add: draw_segment_out_of_scope)

lemma debug_image_cached:
  "debug_img_bg self = Some bg \<Longrightarrow>
   debug_image self sl =
     (case draw_segments (store self @ [store self ! bg]) (length (store self)) (segments sl) of
        (raised, st2) \<Rightarrow>
          ((case raised of Some e \<Rightarrow> Inl e | None \<Rightarrow> Inr (length (store self))),
           self\<lparr>store := st2\<rparr>))"
  by (simp add: debug_image_def new_array_def)

lemma debug_image_first:
  "debug_img_bg self = None \<Longrightarrow>
   debug_image self sl =
     (case draw_segments (store self @ [debug_background, debug_background])
             (Suc (length (store self))) (segments sl) of
        (raised, st2) \<Rightarrow>
          ((case raised of Some e \<Rightarrow> Inl e | None \<Rightarrow> Inr (Suc (length (store self)))),
           self\<lparr>store := st2, debug_img_bg := Some (length (store self))\<rparr>))"
  by (simp add: debug_image_def new_array_def nth_append split: prod.splits option.splits)


lemma debug_background_calls:
  "debug_background =
     \<lparr>shape = (400, 400, 3), fill = 128,
      calls =
        [Line (40, 20) (40, 300) (255, 255, 0) 1,
         Line (80, 20) (80, 300) (255, 255, 0) 1,
         Line (120, 20) (120, 300) (255, 255, 0) 1,
         Line (160, 20) (160, 300) (255, 255, 0) 1,
         Line (200, 20) (200, 300) (255, 255, 0) 1,
         Line (240, 20) (240, 300) (255, 255, 0) 1,
         Line (280, 20) (280, 300) (255, 255, 0) 1,
         Line (320, 20) (320, 300) (255, 255, 0) 1,
         Line (360, 20) (360, 300) (255, 255, 0) 1,
         PutText ''-20cm'' (95, 315) FONT_HERSHEY_PLAIN (4 / 5) (255, 255, 0) 1,
         PutText ''  0cm'' (175, 315) FONT_HERSHEY_PLAIN (4 / 5) (255, 255, 0) 1,
         PutText ''+20cm'' (255, 315) FONT_HERSHEY_PLAIN (4 / 5) (255, 255, 0) 1,
         Line (40, 20) (360, 20) (255, 255, 0) 1,
         Line (40, 60) (360, 60) (255, 255, 0) 1,
         Line (40, 100) (360, 100) (255, 255, 0) 1,
         Line (40, 140) (360, 140) (255, 255, 0) 1,
         Line (40, 180) (360, 180) (255, 255, 0) 1,
         Line (40, 220) (360, 220) (255, 255, 0) 1,
         Line (40, 260) (360, 260) (255, 255, 0) 1,
         Line (40, 300) (360, 300) (255, 255, 0) 1,
         PutText ''20cm'' (2, 223) FONT_HERSHEY_PLAIN (4 / 5) (255, 255, 0) 1,
         PutText '' 0cm'' (2, 303) FONT_HERSHEY_PLAIN (4 / 5) (255, 255, 0) 1,
         Line (200, 280) (200, 300) (255, 0, 0) 1,
         Line (220, 280) (200, 300) (255, 0, 0) 1,
         Line (180, 280) (200, 300) (255, 0, 0) 1]\<rparr>"
  by (simp add: debug_background_def cv2_line_def cv2_putText_def np_arange.simps)

lemma debug_image_one_segment:
  assumes "debug_img_bg self = Some bg" and "draw_segment (store self ! bg) s = Inr img"
  shows "debug_image self \<lparr>header = h, segments = [s]\<rparr> =
           (Inr (length (store self)), self\<lparr>store := store self @ [img]\<rparr>)"
  using assms by (simp add: debug_image_cached)

text \<open>
  C8. A segment in scope with finite coordinates is drawn as one line of thickness 1.
  Its end for the ground point \<open>(x, y)\<close> is the pixel with column \<open>int(y * -400) + 200\<close>
  and row \<open>int(x * -400) + 300\<close>, the product being the rounded one of doubles. Each
  of the two offsets lies between the floor and the ceiling of \<open>-400\<close> times the
  coordinate, so a pixel is 2.5 mm and the end lies within one pixel of its exact
  place; a coordinate 0 gives the offset 0, so the ground point \<open>(0, 0)\<close> is drawn
  at column 200, row 300. With the background cached, rendering such a segment
  gives the background with that line. The background is a 400 by 400 image of three
  channels, and its robot marker ends at column 200, row 300.
\<close>

theorem debug_pixel_mapping:
  assumes "pm_x (fst (points s)) = Fin x0" and "pm_y (fst (points s)) = Fin y0"
    and "pm_x (snd (points s)) = Fin x1" and "pm_y (snd (points s)) = Fin y1"
    and "\<bar>x0\<bar> \<le> 1/2" and "\<bar>y0\<bar> \<le> 1/2" and "\<bar>x1\<bar> \<le> 1/2" and "\<bar>y1\<bar> \<le> 1/2"
  shows "\<exists>c0 r0 c1 r1.
           py_int (float_mul_int (Fin y0) (- 400)) = Inr c0 \<and>
           py_int (float_mul_int (Fin x0) (- 400)) = Inr r0 \<and>
           py_int (float_mul_int (Fin y1) (- 400)) = Inr c1 \<and>
           py_int (float_mul_int (Fin x1) (- 400)) = Inr r1 \<and>
           draw_segment img s =
             Inr (cv2_line img (c0 + 200, r0 + 300) (c1 + 200, r1 + 300)
                    (dict_get color_map (gcolor s) (0, 0, 0)) 1) \<and>
           \<lfloor>y0 * - 400\<rfloor> \<le> c0 \<and> c0 \<le> \<lceil>y0 * - 400\<rceil> \<and>
           \<lfloor>x0 * - 400\<rfloor> \<le> r0 \<and> r0 \<le> \<lceil>x0 * - 400\<rceil> \<and>
           \<lfloor>y1 * - 400\<rfloor> \<le> c1 \<and> c1 \<le> \<lceil>y1 * - 400\<rceil> \<and>
           \<lfloor>x1 * - 400\<rfloor> \<le> r1 \<and> r1 \<le> \<lceil>x1 * - 400\<rceil> \<and>
           (x0 = 0 \<and> y0 = 0 \<longrightarrow>
              draw_segment img s =
                Inr (cv2_line img (200, 300) (c1 + 200, r1 + 300)
                       (dict_get color_map (gcolor s) (0, 0, 0)) 1)) \<and>
           (debug_img_bg self = Some bg \<longrightarrow>
              debug_image self \<lparr>header = h, segments = [s]\<rparr> =
                (Inr (length (store self)),
                 self\<lparr>store := store self @
                   [cv2_line (store self ! bg) (c0 + 200, r0 + 300) (c1 + 200, r1 + 300)
                      (dict_get color_map (gcolor s) (0, 0, 0)) 1]\<rparr>)) \<and>
           shape debug_background = (400, 400, 3) \<and>
           Line (200, 280) (200, 300) (255, 0, 0) 1 \<in> set (calls debug_background)"
proof -
  have scope: "\<not> out_of_scope s"
    using assms by (simp add: in_scope_finite [OF assms(1-4)] not_less)
  from scaled_coordinate [OF assms(6)] obtain c0 where
    c0: "py_int (float_mul_int (Fin y0) (- 400)) = Inr c0"
      "\<lfloor>y0 * - 400\<rfloor> \<le> c0" "c0 \<le> \<lceil>y0 * - 400\<rceil>"
    by blast
  from scaled_coordinate [OF assms(5)] obtain r0 where
    r0: "py_int (float_mul_int (Fin x0) (- 400)) = Inr r0"
      "\<lfloor>x0 * - 400\<rfloor> \<le> r0" "r0 \<le> \<lceil>x0 * - 400\<rceil>"
    by blast
  from scaled_coordinate [OF assms(8)] obtain c1 where
    c1: "py_int (float_mul_int (Fin y1) (- 400)) = Inr c1"
      "\<lfloor>y1 * - 400\<rfloor> \<le> c1" "c1 \<le> \<lceil>y1 * - 400\<rceil>"
    by blast
  from scaled_coordinate [OF assms(7)] obtain r1 where
    r1: "py_int (float_mul_int (Fin x1) (- 400)) = Inr r1"
      "\<lfloor>x1 * - 400\<rfloor> \<le> r1" "r1 \<le> \<lceil>x1 * - 400\<rceil>"
    by blast
  have d: "draw_segment img s =
             Inr (cv2_line img (c0 + 200, r0 + 300) (c1 + 200, r1 + 300)
                    (dict_get color_map (gcolor s) (0, 0, 0)) 1)" for img
    using assms(1-4) scope c0(1) r0(1) c1(1) r1(1) by (rule draw_segment_finite)
  have o: "x0 = 0 \<and> y0 = 0 \<longrightarrow>
              draw_segment img s =
                Inr (cv2_line img (200, 300) (c1 + 200, r1 + 300)
                       (dict_get color_map (gcolor s) (0, 0, 0)) 1)"
  proof
    assume z: "x0 = 0 \<and> y0 = 0"
    with c0(2,3) r0(2,3) have "c0 = 0" "r0 = 0" by simp_all
    with d [of img] show "draw_segment img s =
                Inr (cv2_line img (200, 300) (c1 + 200, r1 + 300)
                       (dict_get color_map (gcolor s) (0, 0, 0)) 1)"
      by simp
  qed
  have b: "debug_img_bg self = Some bg \<longrightarrow>
              debug_image self \<lparr>header = h, segments = [s]\<rparr> =
                (Inr (length (store self)),
                 self\<lparr>store := store self @
                   [cv2_line (store self ! bg) (c0 + 200, r0 + 300) (c1 + 200, r1 + 300)
                      (dict_get color_map (gcolor s) (0, 0, 0)) 1]\<rparr>)"
    using debug_image_one_segment [OF _ d] by blast
  have sh: "shape debug_background = (400, 400, 3)"
    by (simp add: debug_background_calls)
  have mk: "Line (200, 280) (200, 300) (255, 0, 0) 1 \<in> set (calls debug_background)"
    by (simp add: debug_background_calls)
  from c0 r0 c1 r1 d [of img] o b sh mk show ?thesis by blast
qed

lemma doubles_0_29:
  "is_double double_0_29" "is_double double_0_0725" "is_double double_0_3"
  "py_int (float_mul_int (Fin double_0_29) (- 400)) = Inr (- 115)"
  "py_int (float_mul_int (Fin double_0_0725) (- 400)) = Inr (- 28)"
  "py_int (float_mul_int (Fin double_0_3) (- 400)) = Inr (- 120)"
  by code_simp+

theorem debug_pixel_mapping_witness:
  "draw_segment debug_background (ground_seg double_0_0725 double_0_29 double_0_3 0 WHITE) =
     Inr (cv2_line debug_background (85, 272) (200, 180) (255, 255, 255) 1) \<and>
   draw_segment debug_background (ground_seg 0 0 (1/4) (1/8) WHITE) =
     Inr (cv2_line debug_background (200, 300) (150, 200) (255, 255, 255) 1) \<and>
   debug_img_bg cached_node = Some 0 \<and>
   debug_image cached_node \<lparr>header = 3, segments = [ground_seg 0 0 (1/4) (1/8) WHITE]\<rparr> =
     (Inr 1, cached_node\<lparr>store := store cached_node @
        [cv2_line (store cached_node ! 0) (200, 300) (150, 200) (255, 255, 255) 1]\<rparr>)"
proof -
  let ?s = "ground_seg double_0_0725 double_0_29 double_0_3 0 WHITE"
  let ?t = "ground_seg 0 0 (1/4) (1/8) WHITE"
  have col: "dict_get color_map (gcolor ?s) (0, 0, 0) = (255, 255, 255)"
    "dict_get color_map (gcolor ?t) (0, 0, 0) = (255, 255, 255)"
    by (simp_all add: dict_get_def color_map_def ground_seg_def)
  have b: "debug_img_bg cached_node = Some 0" "length (store cached_node) = 1"
    by (simp_all add: cached_node_def)
  have fs: "pm_x (fst (points ?s)) = Fin double_0_0725" "pm_y (fst (points ?s)) = Fin double_0_29"
    "pm_x (snd (points ?s)) = Fin double_0_3" "pm_y (snd (points ?s)) = Fin 0"
    "\<bar>double_0_0725\<bar> \<le> 1/2" "\<bar>double_0_29\<bar> \<le> 1/2" "\<bar>double_0_3\<bar> \<le> 1/2" "\<bar>0 :: rat\<bar> \<le> 1/2"
    by (simp_all add: ground_seg_def double_0_29_def double_0_0725_def double_0_3_def)
  have ft: "pm_x (fst (points ?t)) = Fin 0" "pm_y (fst (points ?t)) = Fin 0"
    "pm_x (snd (points ?t)) = Fin (1/4)" "pm_y (snd (points ?t)) = Fin (1/8)"
    "\<bar>0 :: rat\<bar> \<le> 1/2" "\<bar>0 :: rat\<bar> \<le> 1/2" "\<bar>1/4 :: rat\<bar> \<le> 1/2" "\<bar>1/8 :: rat\<bar> \<le> 1/2"
    by (simp_all add: ground_seg_def)
  from debug_pixel_mapping [OF fs, of debug_background]
  obtain c0 r0 c1 r1 where u:
    "py_int (float_mul_int (Fin double_0_29) (- 400)) = Inr c0"
    "py_int (float_mul_int (Fin double_0_0725) (- 400)) = Inr r0"
    "py_int (float_mul_int (Fin 0) (- 400)) = Inr c1"
    "py_int (float_mul_int (Fin double_0_3) (- 400)) = Inr r1"
    "draw_segment debug_background ?s =
       Inr (cv2_line debug_background (c0 + 200, r0 + 300) (c1 + 200, r1 + 300)
              (dict_get color_map (gcolor ?s) (0, 0, 0)) 1)"
    by blast
  have v: "c0 = - 115" "r0 = - 28" "c1 = 0" "r1 = - 120"
    using u(1) unfolding doubles_0_29(4) apply simp
    using u(2) unfolding doubles_0_29(5) apply simp
    using u(3) unfolding scaled_zero apply simp
    using u(4) unfolding doubles_0_29(6) apply simp
    done
  from u(5) have 1: "draw_segment debug_background ?s =
     Inr (cv2_line debug_background (85, 272) (200, 180) (255, 255, 255) 1)"
    unfolding v col by simp
  from debug_pixel_mapping [OF ft, of debug_background cached_node 0 3]
  obtain c0 r0 c1 r1 where t:
    "py_int (float_mul_int (Fin 0) (- 400)) = Inr c0"
    "py_int (float_mul_int (Fin 0) (- 400)) = Inr r0"
    "\<lfloor>(1/8 :: rat) * - 400\<rfloor> \<le> c1" "c1 \<le> \<lceil>(1/8 :: rat) * - 400\<rceil>"
    "\<lfloor>(1/4 :: rat) * - 400\<rfloor> \<le> r1" "r1 \<le> \<lceil>(1/4 :: rat) * - 400\<rceil>"
    "draw_segment debug_background ?t =
       Inr (cv2_line debug_background (c0 + 200, r0 + 300) (c1 + 200, r1 + 300)
              (dict_get color_map (gcolor ?t) (0, 0, 0)) 1)"
    "debug_img_bg cached_node = Some 0 \<longrightarrow>
       debug_image cached_node \<lparr>header = 3, segments = [?t]\<rparr> =
         (Inr (length (store cached_node)),
          cached_node\<lparr>store := store cached_node @
            [cv2_line (store cached_node ! 0) (c0 + 200, r0 + 300) (c1 + 200, r1 + 300)
               (dict_get color_map (gcolor ?t) (0, 0, 0)) 1]\<rparr>)"
    by blast
  have "(1/8 :: rat) * - 400 = of_int (- 50)" "(1/4 :: rat) * - 400 = of_int (- 100)"
    by simp_all
  with t(3-6) have k: "c1 = - 50" "r1 = - 100"
    by (simp_all only: floor_of_int ceiling_of_int)
  have z: "c0 = 0" "r0 = 0"
    using t(1) unfolding scaled_zero apply simp
    using t(2) unfolding scaled_zero apply simp
    done
  from t(7) have 2: "draw_segment debug_background ?t =
     Inr (cv2_line debug_background (200, 300) (150, 200) (255, 255, 255) 1)"
    unfolding k z col by simp
  from t(8) b(1) have "debug_image cached_node \<lparr>header = 3, segments = [?t]\<rparr> =
         (Inr (length (store cached_node)),
          cached_node\<lparr>store := store cached_node @
            [cv2_line (store cached_node ! 0) (c0 + 200, r0 + 300) (c1 + 200, r1 + 300)
               (dict_get color_map (gcolor ?t) (0, 0, 0)) 1]\<rparr>)"
    by blast
  then have 3:
    "debug_image cached_node \<lparr>header = 3, segments = [?t]\<rparr> =
     (Inr 1, cached_node\<lparr>store := store cached_node @
        [cv2_line (store cached_node ! 0) (200, 300) (150, 200) (255, 255, 255) 1]\<rparr>)"
    unfolding k z col b(2) by simp
  from 1 2 b(1) 3 show ?thesis by blast
qed

lemma debug_image_filter:
  "debug_image self sl =
   debug_image self (sl\<lparr>segments := filter (\<lambda>s. \<not> out_of_scope s) (segments sl)\<rparr>)"
  by (simp add: debug_image_def draw_segments_filter [symmetric])

text \<open>
  C9. A segment one of whose four endpoint coordinates exceeds 0.5 in absolute value
  is skipped by the drawing loop: the image is as it was before that pass. So the debug
  image of a batch is that of its segments in scope alone, and for a batch with no
  segment in scope it is a copy of the cached background with nothing drawn on it, on
  the first call as well as later. The batch published by lineseglist\_cb holds every
  projected segment, in scope or not.
\<close>

theorem out_of_scope_skipped:
  "(c \<in> set [pm_x (fst (points s)), pm_y (fst (points s)),
              pm_x (snd (points s)), pm_y (snd (points s))] \<and>
    float_gt (float_abs c) (1/2) \<longrightarrow> draw_segment img s = Inr img) \<and>
   debug_image self sl =
     debug_image self (sl\<lparr>segments := filter (\<lambda>s. \<not> out_of_scope s) (segments sl)\<rparr>) \<and>
   ((\<forall>s\<in>set (segments sl). out_of_scope s) \<and> debug_img_bg self = Some bg \<longrightarrow>
      debug_image self sl =
        (Inr (length (store self)), self\<lparr>store := store self @ [store self ! bg]\<rparr>)) \<and>
   ((\<forall>s\<in>set (segments sl). out_of_scope s) \<and> debug_img_bg self = None \<longrightarrow>
      debug_image self sl =
        (Inr (Suc (length (store self))),
         self\<lparr>store := store self @ [debug_background, debug_background],
              debug_img_bg := Some (length (store self))\<rparr>)) \<and>
   (camera_info_received self \<and> project_segments lib self (segments msg) [] = Inr out \<longrightarrow>
      pub_lineseglist (snd (lineseglist_cb lib self msg n)) =
        pub_lineseglist self @ [\<lparr>header = header msg, segments = out\<rparr>])"
proof (intro conjI impI)
  assume "c \<in> set [pm_x (fst (points s)), pm_y (fst (points s)),
              pm_x (snd (points s)), pm_y (snd (points s))] \<and>
    float_gt (float_abs c) (1/2)"
  then have "out_of_scope s"
    unfolding out_of_scope_def list_ex_iff by (intro bexI [of _ c]) simp_all
  then show "draw_segment img s = Inr img" by (rule draw_segment_out_of_scope)
next
  show "debug_image self sl =
     debug_image self (sl\<lparr>segments := filter (\<lambda>s. \<not> out_of_scope s) (segments sl)\<rparr>)"
    by (rule debug_image_filter)
next
  assume a: "(\<forall>s\<in>set (segments sl). out_of_scope s) \<and> debug_img_bg self = Some bg"
  then have "draw_segments (store self @ [store self ! bg]) (length (store self)) (segments sl) =
     (None, store self @ [store self ! bg])"
    by (simp add: draw_segments_all_out)
  with a show "debug_image self sl =
        (Inr (length (store self)), self\<lparr>store := store self @ [store self ! bg]\<rparr>)"
    by (simp add: debug_image_cached)
next
  assume a: "(\<forall>s\<in>set (segments sl). out_of_scope s) \<and> debug_img_bg self = None"
  then have "draw_segments (store self @ [debug_background, debug_background])
      (Suc (length (store self))) (segments sl) =
     (None, store self @ [debug_background, debug_background])"
    by (simp add: draw_segments_all_out)
  with a show "debug_image self sl =
        (Inr (Suc (length (store self))),
         self\<lparr>store := store self @ [debug_background, debug_background],
              debug_img_bg := Some (length (store self))\<rparr>)"
    by (simp add: debug_image_first)
next
  assume "camera_info_received self \<and> project_segments lib self (segments msg) [] = Inr out"
  then show "pub_lineseglist (snd (lineseglist_cb lib self msg n)) =
        pub_lineseglist self @ [\<lparr>header = header msg, segments = out\<rparr>]"
    by (simp add: lineseglist_cb_published)
qed

lemma debug_image_keeps_cache:
  assumes "debug_img_bg self = Some bg" and "bg < length (store self)"
  shows "debug_img_bg (snd (debug_image self sl)) = Some bg \<and>
         bg < length (store (snd (debug_image self sl))) \<and>
         store (snd (debug_image self sl)) ! bg = store self ! bg"
proof -
  let ?d = "draw_segments (store self @ [store self ! bg]) (length (store self)) (segments sl)"
  have s: "snd (debug_image self sl) = self\<lparr>store := snd ?d\<rparr>"
    using assms(1) by (simp add: debug_image_cached split: prod.splits)
  have l: "length (snd ?d) = Suc (length (store self))"
    by (simp add: draw_segments_length)
  have "bg \<noteq> length (store self)" using assms(2) by simp
  then have "snd ?d ! bg = (store self @ [store self ! bg]) ! bg"
    by (rule draw_segments_other)
  also have "\<dots> = store self ! bg" using assms(2) by (simp add: nth_append)
  finally show ?thesis using s l assms by simp
qed

lemma debug_image_fills_cache:
  assumes "debug_img_bg self = None"
  shows "debug_img_bg (snd (debug_image self sl)) = Some (length (store self)) \<and>
         length (store self) < length (store (snd (debug_image self sl))) \<and>
         store (snd (debug_image self sl)) ! length (store self) = debug_background"
proof -
  let ?d = "draw_segments (store self @ [debug_background, debug_background])
              (Suc (length (store self))) (segments sl)"
  have s: "snd (debug_image self sl) =
      self\<lparr>store := snd ?d, debug_img_bg := Some (length (store self))\<rparr>"
    using assms by (simp add: debug_image_first split: prod.splits)
  have l: "length (snd ?d) = Suc (Suc (length (store self)))"
    by (simp add: draw_segments_length)
  have "length (store self) \<noteq> Suc (length (store self))" by simp
  then have "snd ?d ! length (store self) =
      (store self @ [debug_background, debug_background]) ! length (store self)"
    by (rule draw_segments_other)
  then have "snd ?d ! length (store self) = debug_background" by simp
  then show ?thesis using s l by simp
qed

lemma debug_image_background_cached:
  "background_cached self \<Longrightarrow> background_cached (snd (debug_image self sl))"
proof (cases "debug_img_bg self")
  case None
  from debug_image_fills_cache [OF None, of sl] show ?thesis
    by (simp add: background_cached_def)
next
  case (Some bg)
  assume "background_cached self"
  with Some have b: "bg < length (store self)" "store self ! bg = debug_background"
    by (simp_all add: background_cached_def)
  from debug_image_keeps_cache [OF Some b(1), of sl] b(2) show ?thesis
    by (simp add: background_cached_def)
qed

lemma lineseglist_cb_cache:
  "(store (snd (lineseglist_cb lib self msg n)) = store self \<and>
    debug_img_bg (snd (lineseglist_cb lib self msg n)) = debug_img_bg self) \<or>
   (\<exists>s sl. store s = store self \<and> debug_img_bg s = debug_img_bg self \<and>
      store (snd (lineseglist_cb lib self msg n)) = store (snd (debug_image s sl)) \<and>
      debug_img_bg (snd (lineseglist_cb lib self msg n)) = debug_img_bg (snd (debug_image s sl)))"
proof (cases "camera_info_received self")
  case False
  then show ?thesis by (simp add: lineseglist_cb_not_ready)
next
  case True
  show ?thesis
  proof (cases "project_segments lib self (segments msg) []")
    case (Inl e)
    with True show ?thesis by (simp add: lineseglist_cb_raised)
  next
    case (Inr out)
    define sl where "sl = \<lparr>header = header msg, segments = out\<rparr>"
    define s1 where "s1 = self\<lparr>pub_lineseglist := pub_lineseglist self @ [sl]\<rparr>"
    define s2 where "s2 = (if \<not> first_processing_done s1
       then (node_log Info ''First projected segments published.'' s1)\<lparr>first_processing_done := True\<rparr>
       else s1)"
    have s2: "store s2 = store self" "debug_img_bg s2 = debug_img_bg self"
      by (simp_all add: s2_def s1_def node_log_def)
    have cb: "lineseglist_cb lib self msg n =
       (if 0 < n then
          (case debug_image s2 sl of
             (Inl e, s3) \<Rightarrow> (Some e, s3)
           | (Inr img, s3) \<Rightarrow>
               (None, s3\<lparr>pub_debug_img := pub_debug_img s3 @
                  [\<lparr>img_header = header sl, img_data = store s3 ! img\<rparr>]\<rparr>))
        else (None, s2))"
      using True Inr unfolding sl_def s1_def s2_def by (simp add: lineseglist_cb_def Let_def)
    show ?thesis
    proof (cases "0 < n")
      case False
      with cb s2 show ?thesis by simp
    next
      case n: True
      obtain r s3 where d: "debug_image s2 sl = (r, s3)" by (cases "debug_image s2 sl")
      have "store (snd (lineseglist_cb lib self msg n)) = store s3 \<and>
            debug_img_bg (snd (lineseglist_cb lib self msg n)) = debug_img_bg s3"
        using cb n d by (cases r) simp_all
      with d s2 have "store s2 = store self \<and> debug_img_bg s2 = debug_img_bg self \<and>
        store (snd (lineseglist_cb lib self msg n)) = store (snd (debug_image s2 sl)) \<and>
        debug_img_bg (snd (lineseglist_cb lib self msg n)) = debug_img_bg (snd (debug_image s2 sl))"
        by simp
      then show ?thesis by blast
    qed
  qed
qed

lemma background_cached_cong:
  "store a = store b \<Longrightarrow> debug_img_bg a = debug_img_bg b \<Longrightarrow>
   background_cached a = background_cached b"
  by (simp add: background_cached_def split: option.splits)

lemma node_step_background_cached:
  assumes "background_cached self"
  shows "background_cached (node_step lib self ev)"
proof (cases ev)
  case (CameraInfoMsg m)
  have "store (snd (cb_camera_info self m)) = store self \<and>
        debug_img_bg (snd (cb_camera_info self m)) = debug_img_bg self"
    by (simp add: cb_camera_info_def Let_def split: sum.splits)
  then have "background_cached (snd (cb_camera_info self m)) = background_cached self"
    by (intro background_cached_cong) simp_all
  with assms CameraInfoMsg show ?thesis by simp
next
  case (SegmentListMsg m n)
  from lineseglist_cb_cache [of lib self m n]
  have "background_cached (snd (lineseglist_cb lib self m n))"
  proof
    assume "store (snd (lineseglist_cb lib self m n)) = store self \<and>
      debug_img_bg (snd (lineseglist_cb lib self m n)) = debug_img_bg self"
    then have "background_cached (snd (lineseglist_cb lib self m n)) = background_cached self"
      by (intro background_cached_cong) simp_all
    with assms show ?thesis by simp
  next
    assume "\<exists>s sl. store s = store self \<and> debug_img_bg s = debug_img_bg self \<and>
      store (snd (lineseglist_cb lib self m n)) = store (snd (debug_image s sl)) \<and>
      debug_img_bg (snd (lineseglist_cb lib self m n)) = debug_img_bg (snd (debug_image s sl))"
    then obtain s sl where s: "store s = store self" "debug_img_bg s = debug_img_bg self"
      "store (snd (lineseglist_cb lib self m n)) = store (snd (debug_image s sl))"
      "debug_img_bg (snd (lineseglist_cb lib self m n)) = debug_img_bg (snd (debug_image s sl))"
      by blast
    from assms have "background_cached s"
      using background_cached_cong [OF s(1,2)] by simp
    then have "background_cached (snd (debug_image s sl))"
      by (rule debug_image_background_cached)
    then show ?thesis
      using background_cached_cong [OF s(3,4)] by simp
  qed
  with SegmentListMsg show ?thesis by simp
qed

lemma node_run_background_cached:
  "background_cached self \<Longrightarrow> background_cached (node_run lib self evs)"
  by (induction evs arbitrary: self) (simp_all add: node_step_background_cached)

lemma node_step_keeps_cache:
  assumes "debug_img_bg self = Some bg" and "bg < length (store self)"
  shows "debug_img_bg (node_step lib self ev) = Some bg \<and>
         bg < length (store (node_step lib self ev)) \<and>
         store (node_step lib self ev) ! bg = store self ! bg"
proof (cases ev)
  case (CameraInfoMsg m)
  have "store (snd (cb_camera_info self m)) = store self \<and>
        debug_img_bg (snd (cb_camera_info self m)) = debug_img_bg self"
    by (simp add: cb_camera_info_def Let_def split: sum.splits)
  with assms CameraInfoMsg show ?thesis by simp
next
  case (SegmentListMsg m n)
  from lineseglist_cb_cache [of lib self m n]
  have "debug_img_bg (snd (lineseglist_cb lib self m n)) = Some bg \<and>
         bg < length (store (snd (lineseglist_cb lib self m n))) \<and>
         store (snd (lineseglist_cb lib self m n)) ! bg = store self ! bg"
  proof
    assume "store (snd (lineseglist_cb lib self m n)) = store self \<and>
      debug_img_bg (snd (lineseglist_cb lib self m n)) = debug_img_bg self"
    with assms show ?thesis by simp
  next
    assume "\<exists>s sl. store s = store self \<and> debug_img_bg s = debug_img_bg self \<and>
      store (snd (lineseglist_cb lib self m n)) = store (snd (debug_image s sl)) \<and>
      debug_img_bg (snd (lineseglist_cb lib self m n)) = debug_img_bg (snd (debug_image s sl))"
    then obtain s sl where s: "store s = store self" "debug_img_bg s = debug_img_bg self"
      "store (snd (lineseglist_cb lib self m n)) = store (snd (debug_image s sl))"
      "debug_img_bg (snd (lineseglist_cb lib self m n)) = debug_img_bg (snd (debug_image s sl))"
      by blast
    from s(1,2) assms have "debug_img_bg s = Some bg" "bg < length (store s)" by simp_all
    from debug_image_keeps_cache [OF this, of sl] s show ?thesis by simp
  qed
  with SegmentListMsg show ?thesis by simp
qed

lemma node_run_keeps_cache:
  "debug_img_bg self = Some bg \<Longrightarrow> bg < length (store self) \<Longrightarrow>
   debug_img_bg (node_run lib self evs) = Some bg \<and>
   bg < length (store (node_run lib self evs)) \<and>
   store (node_run lib self evs) ! bg = store self ! bg"
proof (induction evs arbitrary: self)
  case Nil
  then show ?case by simp
next
  case (Cons ev evs)
  from node_step_keeps_cache [OF Cons.prems, of lib ev]
  have s: "debug_img_bg (node_step lib self ev) = Some bg"
    "bg < length (store (node_step lib self ev))"
    "store (node_step lib self ev) ! bg = store self ! bg"
    by simp_all
  from Cons.IH [OF s(1,2)] s(3) show ?case by simp
qed

lemma init_node_background_cached:
  "init_node fs ns = Inr self \<Longrightarrow> background_cached self"
  by (auto simp: init_node_def background_cached_def split: prod.splits sum.splits)

theorem out_of_scope_skipped_witness:
  "draw_segment debug_background (ground_seg 2 (1/8) 3 (1/4) YELLOW) = Inr debug_background \<and>
   debug_img_bg cached_node = Some 0 \<and>
   debug_image cached_node far_batch =
     (Inr (length (store cached_node)),
      cached_node\<lparr>store := store cached_node @ [store cached_node ! 0]\<rparr>) \<and>
   debug_img_bg ready_node = None \<and>
   debug_image ready_node far_batch =
     (Inr (Suc (length (store ready_node))),
      ready_node\<lparr>store := store ready_node @ [debug_background, debug_background],
                 debug_img_bg := Some (length (store ready_node))\<rparr>) \<and>
   camera_info_received ready_node \<and>
   pub_lineseglist (snd (lineseglist_cb horizon_lib ready_node batch2 1)) =
     pub_lineseglist ready_node @
       [\<lparr>header = header batch2,
         segments = [ground_seg (1/8) (1/8) (1/4) (1/4) WHITE,
                     ground_seg 2 (1/8) 3 (1/4) YELLOW]\<rparr>]"
proof -
  let ?s = "ground_seg 2 (1/8) 3 (1/4) YELLOW"
  have c: "Fin 2 \<in> set [pm_x (fst (points ?s)), pm_y (fst (points ?s)),
              pm_x (snd (points ?s)), pm_y (snd (points ?s))] \<and>
    float_gt (float_abs (Fin 2)) (1/2)"
    by (simp add: ground_seg_def)
  have o: "\<forall>s\<in>set (segments far_batch). out_of_scope s"
    by (simp add: far_batch_def out_of_scope_def ground_seg_def)
  have b: "debug_img_bg cached_node = Some 0" by (simp add: cached_node_def)
  have n: "debug_img_bg ready_node = None" by (rule ready_node_fields)
  have r: "camera_info_received ready_node" by (rule ready_node_fields)
  from out_of_scope_skipped [of "Fin 2" ?s debug_background cached_node far_batch 0] c o b
  have 1: "draw_segment debug_background ?s = Inr debug_background"
    and 2: "debug_image cached_node far_batch =
     (Inr (length (store cached_node)),
      cached_node\<lparr>store := store cached_node @ [store cached_node ! 0]\<rparr>)"
    by blast+
  from out_of_scope_skipped [of _ _ _ ready_node far_batch _ horizon_lib batch2 _ 1]
    o n r batch2_projected
  have 3: "debug_image ready_node far_batch =
     (Inr (Suc (length (store ready_node))),
      ready_node\<lparr>store := store ready_node @ [debug_background, debug_background],
                 debug_img_bg := Some (length (store ready_node))\<rparr>)"
    and 4: "pub_lineseglist (snd (lineseglist_cb horizon_lib ready_node batch2 1)) =
     pub_lineseglist ready_node @
       [\<lparr>header = header batch2,
         segments = [ground_seg (1/8) (1/8) (1/4) (1/4) WHITE,
                     ground_seg 2 (1/8) 3 (1/4) YELLOW]\<rparr>]"
    by blast+
  from 1 b 2 n 3 r 4 show ?thesis by blast
qed

text \<open>
  C10. The first call of debug\_image stores the background it has just drawn and keeps
  a reference to it. On every later call, and over every later run of the node, the
  reference is the same and the array it names is unchanged: segments are drawn on a
  copy. So from construction on, a cached background is always the one first drawn. A
  segment in scope whose color is not a key of the color map is drawn in
  \<open>(0, 0, 0)\<close>; \<open>OTHER\<close> is such a color.
\<close>

theorem background_drawn_once:
  "(debug_img_bg self = None \<longrightarrow>
      debug_img_bg (snd (debug_image self sl)) = Some (length (store self)) \<and>
      store (snd (debug_image self sl)) ! length (store self) = debug_background) \<and>
   (debug_img_bg self = Some bg \<and> bg < length (store self) \<longrightarrow>
      debug_img_bg (snd (debug_image self sl)) = Some bg \<and>
      store (snd (debug_image self sl)) ! bg = store self ! bg \<and>
      debug_img_bg (node_run lib self evs) = Some bg \<and>
      store (node_run lib self evs) ! bg = store self ! bg) \<and>
   (init_node fs ns = Inr self \<longrightarrow> background_cached (node_run lib self evs)) \<and>
   (color_map (gcolor s) = None \<and>
    pm_x (fst (points s)) = Fin x0 \<and> pm_y (fst (points s)) = Fin y0 \<and>
    pm_x (snd (points s)) = Fin x1 \<and> pm_y (snd (points s)) = Fin y1 \<and>
    \<bar>x0\<bar> \<le> 1/2 \<and> \<bar>y0\<bar> \<le> 1/2 \<and> \<bar>x1\<bar> \<le> 1/2 \<and> \<bar>y1\<bar> \<le> 1/2 \<longrightarrow>
      (\<exists>c0 r0 c1 r1.
         py_int (float_mul_int (Fin y0) (- 400)) = Inr c0 \<and>
         py_int (float_mul_int (Fin x0) (- 400)) = Inr r0 \<and>
         py_int (float_mul_int (Fin y1) (- 400)) = Inr c1 \<and>
         py_int (float_mul_int (Fin x1) (- 400)) = Inr r1 \<and>
         draw_segment img s =
           Inr (cv2_line img (c0 + 200, r0 + 300) (c1 + 200, r1 + 300) (0, 0, 0) 1))) \<and>
   color_map OTHER = None"
proof (intro conjI impI)
  assume "debug_img_bg self = None"
  from debug_image_fills_cache [OF this, of sl]
  show "debug_img_bg (snd (debug_image self sl)) = Some (length (store self))"
    and "store (snd (debug_image self sl)) ! length (store self) = debug_background"
    by simp_all
next
  assume a: "debug_img_bg self = Some bg \<and> bg < length (store self)"
  then have b: "debug_img_bg self = Some bg" "bg < length (store self)" by simp_all
  from debug_image_keeps_cache [OF b, of sl]
  show "debug_img_bg (snd (debug_image self sl)) = Some bg"
    and "store (snd (debug_image self sl)) ! bg = store self ! bg"
    by simp_all
  from node_run_keeps_cache [OF b, of lib evs]
  show "debug_img_bg (node_run lib self evs) = Some bg"
    and "store (node_run lib self evs) ! bg = store self ! bg"
    by simp_all
next
  assume "init_node fs ns = Inr self"
  then have "background_cached self" by (rule init_node_background_cached)
  then show "background_cached (node_run lib self evs)" by (rule node_run_background_cached)
next
  assume a: "color_map (gcolor s) = None \<and>
    pm_x (fst (points s)) = Fin x0 \<and> pm_y (fst (points s)) = Fin y0 \<and>
    pm_x (snd (points s)) = Fin x1 \<and> pm_y (snd (points s)) = Fin y1 \<and>
    \<bar>x0\<bar> \<le> 1/2 \<and> \<bar>y0\<bar> \<le> 1/2 \<and> \<bar>x1\<bar> \<le> 1/2 \<and> \<bar>y1\<bar> \<le> 1/2"
  then have f: "pm_x (fst (points s)) = Fin x0" "pm_y (fst (points s)) = Fin y0"
    "pm_x (snd (points s)) = Fin x1" "pm_y (snd (points s)) = Fin y1"
    by simp_all
  have scope: "\<not> out_of_scope s"
    using a by (simp add: in_scope_finite [OF f] not_less)
  have col: "dict_get color_map (gcolor s) (0, 0, 0) = (0, 0, 0)"
    using a by (simp add: dict_get_def)
  from a scaled_coordinate [of y0] obtain c0 where
    c0: "py_int (float_mul_int (Fin y0) (- 400)) = Inr c0" by blast
  from a scaled_coordinate [of x0] obtain r0 where
    r0: "py_int (float_mul_int (Fin x0) (- 400)) = Inr r0" by blast
  from a scaled_coordinate [of y1] obtain c1 where
    c1: "py_int (float_mul_int (Fin y1) (- 400)) = Inr c1" by blast
  from a scaled_coordinate [of x1] obtain r1 where
    r1: "py_int (float_mul_int (Fin x1) (- 400)) = Inr r1" by blast
  from draw_segment_finite [OF f scope c0 r0 c1 r1, of img] col
  have "draw_segment img s =
           Inr (cv2_line img (c0 + 200, r0 + 300) (c1 + 200, r1 + 300) (0, 0, 0) 1)"
    by simp
  with c0 r0 c1 r1
  show "\<exists>c0 r0 c1 r1.
         py_int (float_mul_int (Fin y0) (- 400)) = Inr c0 \<and>
         py_int (float_mul_int (Fin x0) (- 400)) = Inr r0 \<and>
         py_int (float_mul_int (Fin y1) (- 400)) = Inr c1 \<and>
         py_int (float_mul_int (Fin x1) (- 400)) = Inr r1 \<and>
         draw_segment img s =
           Inr (cv2_line img (c0 + 200, r0 + 300) (c1 + 200, r1 + 300) (0, 0, 0) 1)"
    by blast
next
  show "color_map OTHER = None" by (simp add: color_map_def)
qed

lemma init_node_default_only:
  "init_node default_only_fs ''/duckie/'' =
     Inr (awaiting_node\<lparr>logged :=
       [(Warn, ''Can't find calibration file: /data/config/calibrations/camera_extrinsic/duckie.yaml.'' @
               [CHR 0x0A] @ '' Using default calibration instead.'')]\<rparr>)"
  by (simp add: init_node_def load_extrinsics_def default_only_fs_def isfile_def
      strip_slash_def path_join_def identity9_def np_reshape_def awaiting_node_def Let_def
      eval_nat_numeral)

lemma scaled_quarter_eighth:
  "py_int (float_mul_int (Fin (1/4)) (- 400)) = Inr (- 100)"
  "py_int (float_mul_int (Fin (1/8)) (- 400)) = Inr (- 50)"
  by code_simp+

theorem background_drawn_once_witness:
  "debug_img_bg ready_node = None \<and>
   debug_img_bg (snd (debug_image ready_node far_batch)) = Some (length (store ready_node)) \<and>
   store (snd (debug_image ready_node far_batch)) ! length (store ready_node) = debug_background \<and>
   debug_img_bg cached_node = Some 0 \<and> 0 < length (store cached_node) \<and>
   store (snd (debug_image cached_node far_batch)) ! 0 = store cached_node ! 0 \<and>
   store (node_run horizon_lib cached_node
            [SegmentListMsg batch2 1, CameraInfoMsg info_b, SegmentListMsg batch2 1]) ! 0 =
     store cached_node ! 0 \<and>
   isl (init_node default_only_fs ''/duckie/'') = False \<and>
   background_cached (node_run horizon_lib (projr (init_node default_only_fs ''/duckie/''))
     [CameraInfoMsg info_a, SegmentListMsg batch2 1, SegmentListMsg batch2 1]) \<and>
   color_map (gcolor (ground_seg 0 0 (1/4) (1/8) OTHER)) = None \<and>
   draw_segment debug_background (ground_seg 0 0 (1/4) (1/8) OTHER) =
     Inr (cv2_line debug_background (200, 300) (150, 200) (0, 0, 0) 1)"
proof -
  let ?s = "ground_seg 0 0 (1/4) (1/8) OTHER"
  let ?n0 = "awaiting_node\<lparr>logged :=
       [(Warn, ''Can't find calibration file: /data/config/calibrations/camera_extrinsic/duckie.yaml.'' @
               [CHR 0x0A] @ '' Using default calibration instead.'')]\<rparr>"
  have n: "debug_img_bg ready_node = None" by (rule ready_node_fields)
  have b: "debug_img_bg cached_node = Some 0 \<and> 0 < length (store cached_node)"
    by (simp add: cached_node_def)
  have i: "init_node default_only_fs ''/duckie/'' = Inr ?n0"
    by (rule init_node_default_only)
  have c: "color_map (gcolor ?s) = None \<and>
    pm_x (fst (points ?s)) = Fin 0 \<and> pm_y (fst (points ?s)) = Fin 0 \<and>
    pm_x (snd (points ?s)) = Fin (1/4) \<and> pm_y (snd (points ?s)) = Fin (1/8) \<and>
    \<bar>0 :: rat\<bar> \<le> 1/2 \<and> \<bar>0 :: rat\<bar> \<le> 1/2 \<and> \<bar>1/4 :: rat\<bar> \<le> 1/2 \<and> \<bar>1/8 :: rat\<bar> \<le> 1/2"
    by (simp add: ground_seg_def color_map_def)
  from background_drawn_once [of ready_node far_batch] n
  have 1: "debug_img_bg (snd (debug_image ready_node far_batch)) = Some (length (store ready_node)) \<and>
    store (snd (debug_image ready_node far_batch)) ! length (store ready_node) = debug_background"
    by blast
  from background_drawn_once [of cached_node far_batch 0 horizon_lib
      "[SegmentListMsg batch2 1, CameraInfoMsg info_b, SegmentListMsg batch2 1]"] b
  have 2: "store (snd (debug_image cached_node far_batch)) ! 0 = store cached_node ! 0 \<and>
    store (node_run horizon_lib cached_node
            [SegmentListMsg batch2 1, CameraInfoMsg info_b, SegmentListMsg batch2 1]) ! 0 =
     store cached_node ! 0"
    by blast
  from background_drawn_once [of ?n0 _ _ horizon_lib
      "[CameraInfoMsg info_a, SegmentListMsg batch2 1, SegmentListMsg batch2 1]"
      default_only_fs "''/duckie/''"] i
  have 3: "background_cached (node_run horizon_lib ?n0
     [CameraInfoMsg info_a, SegmentListMsg batch2 1, SegmentListMsg batch2 1])"
    by blast
  from background_drawn_once [of _ _ _ _ _ _ _ ?s 0 0 "1/4" "1/8" debug_background] c
  obtain c0 r0 c1 r1 where u:
    "py_int (float_mul_int (Fin 0) (- 400)) = Inr c0"
    "py_int (float_mul_int (Fin 0) (- 400)) = Inr r0"
    "py_int (float_mul_int (Fin (1/8)) (- 400)) = Inr c1"
    "py_int (float_mul_int (Fin (1/4)) (- 400)) = Inr r1"
    "draw_segment debug_background ?s =
       Inr (cv2_line debug_background (c0 + 200, r0 + 300) (c1 + 200, r1 + 300) (0, 0, 0) 1)"
    by blast
  have v: "c0 = 0" "r0 = 0" "c1 = - 50" "r1 = - 100"
    using u(1) unfolding scaled_zero apply simp
    using u(2) unfolding scaled_zero apply simp
    using u(3) unfolding scaled_quarter_eighth(2) apply simp
    using u(4) unfolding scaled_quarter_eighth(1) apply simp
    done
  from u(5) have 4: "draw_segment debug_background ?s =
     Inr (cv2_line debug_background (200, 300) (150, 200) (0, 0, 0) 1)"
    unfolding v by simp
  from i have 5: "isl (init_node default_only_fs ''/duckie/'') = False"
    "projr (init_node default_only_fs ''/duckie/'') = ?n0"
    by simp_all
  from c have c': "color_map (gcolor ?s) = None" by blast
  from n 1 b 2 5(1) 3 [folded 5(2)] c' 4 show ?thesis by blast
qed

lemma segment_pixels_shape:
  assumes "segment_pixels s = Inr (p0, p1)"
  shows "\<exists>l0 l1. pixels_normalized s = PSeq [l0, l1] \<and>
           getitem l0 0 = Inr (px p0) \<and> getitem l0 1 = Inr (py p0) \<and>
           getitem l1 2 = Inr (px p1) \<and> getitem l1 3 = Inr (py p1)"
proof -
  from assms obtain l0 l1 where u: "unpack2 (pixels_normalized s) = Inr (l0, l1)"
    by (auto simp: segment_pixels_def split: sum.split_asm)
  then have "pixels_normalized s = PSeq [l0, l1]"
    by (cases "pixels_normalized s" rule: unpack2.cases) auto
  moreover from assms u have "getitem l0 0 = Inr (px p0) \<and> getitem l0 1 = Inr (py p0) \<and>
           getitem l1 2 = Inr (px p1) \<and> getitem l1 3 = Inr (py p1)"
    by (auto simp: segment_pixels_def split: sum.split_asm)
  ultimately show ?thesis by blast
qed

text \<open>
  C2. The extraction of lines 141 to 143 unpacks the endpoint data into two elements
  and reads indices 0 and 1 of the first and indices 2 and 3 of the second. On four
  floats in a row the unpacking raises \<open>ValueError\<close>; on two points of two floats the
  read of index 2 raises \<open>IndexError\<close>; on two elements of four floats the second
  pixel is made of the last two floats of the second element.
\<close>

theorem endpoint_extraction_layouts:
  "segment_pixels flat4_segment = Inl ValueError \<and>
   segment_pixels pairs_segment = Inl IndexError \<and>
   segment_pixels quads_segment =
     Inr (\<lparr>px = PFloat (Fin 1), py = PFloat (Fin 2)\<rparr>, \<lparr>px = PFloat (Fin 7), py = PFloat (Fin 8)\<rparr>)"
  by (simp add: segment_pixels_def flat4_segment_def pairs_segment_def quads_segment_def)

lemma segment_pixels_layouts:
  "pixels_normalized s = PSeq [PFloat a, PFloat b, PFloat c, PFloat d] \<Longrightarrow>
   segment_pixels s = Inl ValueError"
  "pixels_normalized s = PSeq [PSeq [PFloat a, PFloat b], PSeq [PFloat c, PFloat d]] \<Longrightarrow>
   segment_pixels s = Inl IndexError"
  by (simp_all add: segment_pixels_def)

lemma project_segment_extraction_raises:
  "segment_pixels s = Inl e \<Longrightarrow> project_segment lib self s = Inl e"
  by (simp add: project_segment_def)

text \<open>
  C6. With the node ready, a received batch whose first segment has its endpoint data
  as four floats in a row ends the callback with \<open>ValueError\<close>, and one whose first
  segment has them as two points of two floats ends it with \<open>IndexError\<close>; a batch
  that holds such a segment anywhere ends the callback with an exception. In each case
  the node is left as it was: no ground-space batch is published, so no output segment
  is the projection of the two endpoints of its input segment.
\<close>

theorem endpoint_layouts_publish_nothing:
  assumes "camera_info_received self"
  shows "(segments msg = s # rest \<and>
          pixels_normalized s = PSeq [PFloat a, PFloat b, PFloat c, PFloat d] \<longrightarrow>
            lineseglist_cb lib self msg n = (Some ValueError, self)) \<and>
         (segments msg = s # rest \<and>
          pixels_normalized s = PSeq [PSeq [PFloat a, PFloat b], PSeq [PFloat c, PFloat d]] \<longrightarrow>
            lineseglist_cb lib self msg n = (Some IndexError, self)) \<and>
         (s \<in> set (segments msg) \<and>
          (pixels_normalized s = PSeq [PFloat a, PFloat b, PFloat c, PFloat d] \<or>
           pixels_normalized s = PSeq [PSeq [PFloat a, PFloat b], PSeq [PFloat c, PFloat d]]) \<longrightarrow>
            (\<exists>e. lineseglist_cb lib self msg n = (Some e, self)) \<and>
            pub_lineseglist (snd (lineseglist_cb lib self msg n)) = pub_lineseglist self)"
proof (intro conjI impI)
  assume a: "segments msg = s # rest \<and>
          pixels_normalized s = PSeq [PFloat a, PFloat b, PFloat c, PFloat d]"
  then have "project_segment lib self s = Inl ValueError"
    by (simp add: segment_pixels_layouts project_segment_extraction_raises)
  with a have "project_segments lib self (segments msg) [] = Inl ValueError" by simp
  with assms show "lineseglist_cb lib self msg n = (Some ValueError, self)"
    by (rule lineseglist_cb_raised)
next
  assume a: "segments msg = s # rest \<and>
          pixels_normalized s = PSeq [PSeq [PFloat a, PFloat b], PSeq [PFloat c, PFloat d]]"
  then have "project_segment lib self s = Inl IndexError"
    by (simp add: segment_pixels_layouts project_segment_extraction_raises)
  with a have "project_segments lib self (segments msg) [] = Inl IndexError" by simp
  with assms show "lineseglist_cb lib self msg n = (Some IndexError, self)"
    by (rule lineseglist_cb_raised)
next
  assume a: "s \<in> set (segments msg) \<and>
          (pixels_normalized s = PSeq [PFloat a, PFloat b, PFloat c, PFloat d] \<or>
           pixels_normalized s = PSeq [PSeq [PFloat a, PFloat b], PSeq [PFloat c, PFloat d]])"
  then have "\<exists>e. project_segment lib self s = Inl e"
    using segment_pixels_layouts project_segment_extraction_raises by blast
  with a obtain e' where "project_segments lib self (segments msg) [] = Inl e'"
    using project_segments_Inl by blast
  from lineseglist_cb_raised [OF assms this]
  have c: "lineseglist_cb lib self msg n = (Some e', self)" .
  then show "\<exists>e. lineseglist_cb lib self msg n = (Some e, self)" by blast
  from c show "pub_lineseglist (snd (lineseglist_cb lib self msg n)) = pub_lineseglist self"
    by simp
qed

theorem endpoint_layouts_publish_nothing_witness:
  "camera_info_received ready_node \<and>
   segments flat4_batch = flat4_segment # [] \<and>
   pixels_normalized flat4_segment =
     PSeq [PFloat (Fin 1), PFloat (Fin 2), PFloat (Fin 3), PFloat (Fin 4)] \<and>
   lineseglist_cb horizon_lib ready_node flat4_batch 1 = (Some ValueError, ready_node) \<and>
   pairs_segment \<in> set (segments pairs_batch) \<and>
   pixels_normalized pairs_segment =
     PSeq [PSeq [PFloat (Fin 1), PFloat (Fin 2)], PSeq [PFloat (Fin 3), PFloat (Fin 4)]] \<and>
   (\<exists>e. lineseglist_cb horizon_lib ready_node pairs_batch 1 = (Some e, ready_node)) \<and>
   pub_lineseglist (snd (lineseglist_cb horizon_lib ready_node pairs_batch 1)) =
     pub_lineseglist ready_node \<and>
   pub_lineseglist ready_node = []"
proof -
  have r: "camera_info_received ready_node" by (rule ready_node_fields)
  have f: "segments flat4_batch = flat4_segment # []"
    "pixels_normalized flat4_segment =
       PSeq [PFloat (Fin 1), PFloat (Fin 2), PFloat (Fin 3), PFloat (Fin 4)]"
    by (simp_all add: flat4_batch_def flat4_segment_def)
  have p: "pairs_segment \<in> set (segments pairs_batch)"
    "pixels_normalized pairs_segment =
       PSeq [PSeq [PFloat (Fin 1), PFloat (Fin 2)], PSeq [PFloat (Fin 3), PFloat (Fin 4)]]"
    by (simp_all add: pairs_batch_def pairs_segment_def)
  from endpoint_layouts_publish_nothing [OF r, of flat4_batch flat4_segment "[]"
      "Fin 1" "Fin 2" "Fin 3" "Fin 4" horizon_lib 1] f
  have 1: "lineseglist_cb horizon_lib ready_node flat4_batch 1 = (Some ValueError, ready_node)"
    by blast
  from endpoint_layouts_publish_nothing [OF r, of pairs_batch pairs_segment _
      "Fin 1" "Fin 2" "Fin 3" "Fin 4" horizon_lib 1] p
  have 2: "(\<exists>e. lineseglist_cb horizon_lib ready_node pairs_batch 1 = (Some e, ready_node)) \<and>
    pub_lineseglist (snd (lineseglist_cb horizon_lib ready_node pairs_batch 1)) =
      pub_lineseglist ready_node"
    by blast
  from r f 1 p 2 ready_node_fields(4) show ?thesis by blast
qed

lemma decode_image_msg_ValueError:
  assumes "image_msg self = Some m" and "compressed_imgmsg_to_cv2 lib m = Inl (ValueError, txt)"
  shows "decode_image_msg lib self =
           (Inl UnboundLocalError,
            self\<lparr>ai_logged := ai_logged self @
              [(Info, ''Anti_instagram cannot decode image: '' @ txt)]\<rparr>)"
    and "calculate_new_parameters lib self =
           (Some UnboundLocalError,
            self\<lparr>ai_logged := ai_logged self @
              [(Info, ''Anti_instagram cannot decode image: '' @ txt)]\<rparr>)"
  using assms by (simp_all add: decode_image_msg_def calculate_new_parameters_def)

text \<open>
  C5. When the bridge raises \<open>ValueError\<close> on the stored message, decode\_image\_msg
  logs it and then raises \<open>UnboundLocalError\<close>, which escapes
  calculate\_new\_parameters as well; the estimator is not updated and nothing is
  published.
\<close>

theorem decode_failure_escapes:
  "compressed_imgmsg_to_cv2 counting_lib 1 = Inl (ValueError, ''bad payload'') \<and>
   decode_image_msg counting_lib stale_node =
     (Inl UnboundLocalError,
      stale_node\<lparr>ai_logged := [(Info, ''Anti_instagram cannot decode image: bad payload'')]\<rparr>) \<and>
   calculate_new_parameters counting_lib stale_node =
     (Some UnboundLocalError,
      stale_node\<lparr>ai_logged := [(Info, ''Anti_instagram cannot decode image: bad payload'')]\<rparr>)"
proof -
  have m: "image_msg stale_node = Some 1" and l: "ai_logged stale_node = []"
    by (simp_all add: stale_node_def)
  have b: "compressed_imgmsg_to_cv2 counting_lib 1 = Inl (ValueError, ''bad payload'')"
    by (simp add: counting_lib_def)
  from decode_image_msg_ValueError [OF m b] l b show ?thesis by simp
qed

text \<open>
  C4. With the robot's file absent and a default file that holds a homography, the
  loader returns that homography, logs one warning and does not signal shutdown. With
  neither file present it logs an error, signals shutdown and raises; with the chosen
  file unparsable (the robot's file, or the default when the robot's is absent) it
  logs an error, signals shutdown and raises. In each of these three cases
  construction of the node fails with the exception.
\<close>

theorem calibration_loader_cases:
  fixes fs :: "pyfloat list filesystem"
  shows
  "(let folder = ''/data/config/calibrations/camera_extrinsic/'';
        robot = folder @ strip_slash ns @ ''.yaml'';
        dflt = folder @ ''default.yaml'';
        warning = (Warn, ''Can't find calibration file: '' @ robot @ ''.'' @ [CHR 0x0A] @
                         '' Using default calibration instead.'')
    in (fs robot = None \<and> fs dflt = Some (Mapping d) \<and> map_of d ''homography'' = Some h \<longrightarrow>
          load_extrinsics fs ns = (Inr h, [warning], False)) \<and>
       (fs robot = None \<and> fs dflt = None \<longrightarrow>
          load_extrinsics fs ns =
            (Inl FileNotFoundError,
             [warning, (Error, ''Found no calibration file ... aborting'')], True) \<and>
          init_node fs ns = Inl FileNotFoundError) \<and>
       (fs robot = Some Unparsable \<longrightarrow>
          load_extrinsics fs ns =
            (Inl UnboundLocalError,
             [(Error, ''Error in parsing calibration file '' @ robot @ '' ... aborting'')],
             True) \<and>
          init_node fs ns = Inl UnboundLocalError) \<and>
       (fs robot = None \<and> fs dflt = Some Unparsable \<longrightarrow>
          load_extrinsics fs ns =
            (Inl UnboundLocalError,
             [warning,
              (Error, ''Error in parsing calibration file '' @ dflt @ '' ... aborting'')],
             True) \<and>
          init_node fs ns = Inl UnboundLocalError))"
  by (simp add: load_extrinsics_def init_node_def isfile_def path_join_def Let_def)

theorem calibration_loader_cases_witness:
  "load_extrinsics default_only_fs ''/duckie/'' =
     (Inr identity9,
      [(Warn, ''Can't find calibration file: '' @
              (''/data/config/calibrations/camera_extrinsic/'' @ strip_slash ''/duckie/'' @ ''.yaml'') @
              ''.'' @ [CHR 0x0A] @ '' Using default calibration instead.'')], False) \<and>
   load_extrinsics (Map.empty :: pyfloat list filesystem) ''/duckie/'' =
     (Inl FileNotFoundError,
      [(Warn, ''Can't find calibration file: '' @
              (''/data/config/calibrations/camera_extrinsic/'' @ strip_slash ''/duckie/'' @ ''.yaml'') @
              ''.'' @ [CHR 0x0A] @ '' Using default calibration instead.''),
       (Error, ''Found no calibration file ... aborting'')], True) \<and>
   init_node Map.empty ''/duckie/'' = Inl FileNotFoundError \<and>
   load_extrinsics broken_robot_fs ''/duckie/'' =
     (Inl UnboundLocalError,
      [(Error, ''Error in parsing calibration file '' @
               (''/data/config/calibrations/camera_extrinsic/'' @ strip_slash ''/duckie/'' @ ''.yaml'') @
               '' ... aborting'')], True) \<and>
   init_node broken_robot_fs ''/duckie/'' = Inl UnboundLocalError \<and>
   init_node broken_default_fs ''/duckie/'' = Inl UnboundLocalError"
proof -
  let ?robot = "''/data/config/calibrations/camera_extrinsic/'' @ strip_slash ''/duckie/'' @ ''.yaml''"
  let ?dflt = "''/data/config/calibrations/camera_extrinsic/'' @ ''default.yaml''"
  have p1: "default_only_fs ?robot = None \<and>
      default_only_fs ?dflt = Some (Mapping [(''homography'', identity9)]) \<and>
      map_of [(''homography'', identity9)] ''homography'' = Some identity9"
    by (simp add: default_only_fs_def strip_slash_def)
  have p2: "(Map.empty :: pyfloat list filesystem) ?robot = None \<and>
      (Map.empty :: pyfloat list filesystem) ?dflt = None"
    by simp
  have p3: "broken_robot_fs ?robot = Some Unparsable"
    by (simp add: broken_robot_fs_def strip_slash_def)
  have p4: "broken_default_fs ?robot = None \<and> broken_default_fs ?dflt = Some Unparsable"
    by (simp add: broken_default_fs_def strip_slash_def)
  from calibration_loader_cases [of "''/duckie/''" default_only_fs
      "[(''homography'', identity9)]" identity9] p1
  have c1: "load_extrinsics default_only_fs ''/duckie/'' =
     (Inr identity9,
      [(Warn, ''Can't find calibration file: '' @ ?robot @
              ''.'' @ [CHR 0x0A] @ '' Using default calibration instead.'')], False)"
    unfolding Let_def by blast
  from calibration_loader_cases [of "''/duckie/''" Map.empty] p2
  have c2: "load_extrinsics (Map.empty :: pyfloat list filesystem) ''/duckie/'' =
     (Inl FileNotFoundError,
      [(Warn, ''Can't find calibration file: '' @ ?robot @
              ''.'' @ [CHR 0x0A] @ '' Using default calibration instead.''),
       (Error, ''Found no calibration file ... aborting'')], True) \<and>
     init_node Map.empty ''/duckie/'' = Inl FileNotFoundError"
    unfolding Let_def by blast
  from calibration_loader_cases [of "''/duckie/''" broken_robot_fs] p3
  have c3: "load_extrinsics broken_robot_fs ''/duckie/'' =
     (Inl UnboundLocalError,
      [(Error, ''Error in parsing calibration file '' @ ?robot @ '' ... aborting'')], True) \<and>
     init_node broken_robot_fs ''/duckie/'' = Inl UnboundLocalError"
    unfolding Let_def by blast
  from calibration_loader_cases [of "''/duckie/''" broken_default_fs] p4
  have c4: "init_node broken_default_fs ''/duckie/'' = Inl UnboundLocalError"
    unfolding Let_def by blast
  from c1 c2 c3 c4 show ?thesis by blast
qed

end
